theory Spec2Isabelle
  imports Main "HOL-Library.Sublist"
begin

section \<open>Exceptions and numerics\<close>

text \<open>
  A Python exception is a value of \<open>error\<close>.  \<open>AssertionError\<close> carries the message of
  the \<open>assert\<close> statement (empty when the statement gives none).  An exception that
  leaves one of the helpers whose code lives in other modules of the package
  (\<open>weight_utils\<close>, \<open>parallel_utils.layers\<close>, \<open>layers.attention\<close>, \<open>layers.activation\<close>)
  is \<open>Raised\<close> with whatever description the helper gives.
\<close>

datatype error =
    ZeroDivisionError
  | ValueError string
  | KeyError string
  | IndexError
  | RuntimeError
  | AssertionError string
  | Raised string

datatype dtype = Float16 | BFloat16 | Float32 | Float64

datatype device = CPU | CUDA nat

text \<open>
  Floating-point arithmetic is not interpreted.  The operations of the host
  runtime that compute with floats are the fields of a record that every
  function below takes as its first argument:
  \<^item> \<open>cast d x\<close>: the value \<open>x\<close> converted to element type \<open>d\<close>;
  \<^item> \<open>l2_normalize d shp xs\<close>: \<open>torch.nn.functional.normalize\<close> with its default
    arguments (\<open>p = 2\<close>, \<open>dim = 1\<close>, \<open>eps = 1e-12\<close>) on the row-major data \<open>xs\<close> of a
    tensor of shape \<open>shp\<close>, computed in the arithmetic of element type \<open>d\<close>;
  \<^item> \<open>alibi_slope n i\<close>: the float \<open>start * ratio**i\<close> with
    \<open>start = ratio = 2**(-(2**-(math.log2(n) - 3)))\<close>;
  \<^item> \<open>pow_neg_half n\<close>: the float \<open>n ** -0.5\<close> for \<open>n > 0\<close>.
\<close>

record 'a numerics =
  cast :: "dtype \<Rightarrow> 'a \<Rightarrow> 'a"
  l2_normalize :: "dtype \<Rightarrow> nat list \<Rightarrow> 'a list \<Rightarrow> 'a list"
  alibi_slope :: "nat \<Rightarrow> nat \<Rightarrow> 'a"
  pow_neg_half :: "nat \<Rightarrow> 'a"

section \<open>ALiBi slopes\<close>

text \<open>
  \<open>math.log2(n).is_integer()\<close> and \<open>math.floor(math.log2(n))\<close> are modelled exactly, on
  natural numbers: \<open>log2_floor n\<close> is the position of the highest set bit, and \<open>n\<close> is a
  power of two when \<open>2 ^ log2_floor n = n\<close>.  \<open>math.log2(0)\<close> raises \<open>ValueError\<close>.
\<close>

fun log2_floor :: "nat \<Rightarrow> nat" where
  "log2_floor n = (if n < 2 then 0 else Suc (log2_floor (n div 2)))"

declare log2_floor.simps [simp del]

definition log2_is_integer :: "nat \<Rightarrow> bool" where
  "log2_is_integer n = (2 ^ log2_floor n = n)"

definition get_interleave_power_of_2 :: "'a numerics \<Rightarrow> nat \<Rightarrow> 'a list" where
  "get_interleave_power_of_2 num n = map (alibi_slope num n) [0..<n]"

text \<open>The slice \<open>xs[0::2]\<close>.\<close>

fun every_other :: "'a list \<Rightarrow> 'a list" where
  "every_other [] = []"
| "every_other [x] = [x]"
| "every_other (x # y # xs) = x # every_other xs"

lemma log2_floor_le: "0 < n \<Longrightarrow> 2 ^ log2_floor n \<le> n"
proof (induction n rule: log2_floor.induct)
  case (1 n)
  show ?case
  proof (cases "n < 2")
    case True
    with "1.prems" show ?thesis by (simp add: log2_floor.simps [of n])
  next
    case False
    then have "0 < n div 2" by simp
    with 1 False have "2 ^ log2_floor (n div 2) \<le> n div 2" by simp
    then have "2 * 2 ^ log2_floor (n div 2) \<le> n" by simp
    with False show ?thesis by (simp add: log2_floor.simps [of n])
  qed
qed

lemma log2_floor_gt: "n < 2 * 2 ^ log2_floor n"
proof (induction n rule: log2_floor.induct)
  case (1 n)
  show ?case
  proof (cases "n < 2")
    case True
    then show ?thesis by (simp add: log2_floor.simps [of n])
  next
    case False
    with 1 have "n div 2 < 2 * 2 ^ log2_floor (n div 2)" by simp
    then have "n < 2 * (2 * 2 ^ log2_floor (n div 2))" by simp
    with False show ?thesis by (simp add: log2_floor.simps [of n])
  qed
qed

lemma log2_floor_power [simp]: "log2_floor (2 ^ k) = k"
proof (induction k)
  case 0
  show ?case by (simp add: log2_floor.simps [of "Suc 0"])
next
  case (Suc k)
  have "\<not> (2::nat) ^ Suc k < 2" by simp
  then show ?case using Suc by (simp add: log2_floor.simps [of "2 ^ Suc k"] del: power_Suc) simp
qed

lemma log2_is_integer_double: "log2_is_integer (2 * 2 ^ k)"
proof -
  have "log2_floor (2 ^ Suc k) = Suc k" by (rule log2_floor_power)
  then show ?thesis by (simp add: log2_is_integer_def)
qed

function get_interleave :: "'a numerics \<Rightarrow> nat \<Rightarrow> error + 'a list" where
  "get_interleave num n =
     (if n = 0 then Inl (ValueError ''math domain error'')
      else if log2_is_integer n then Inr (get_interleave_power_of_2 num n)
      else
        (let closest_power_of_2 = 2 ^ log2_floor n in
         case get_interleave num (2 * closest_power_of_2) of
           Inl e \<Rightarrow> Inl e
         | Inr ys \<Rightarrow>
             Inr (get_interleave_power_of_2 num closest_power_of_2 @
                  take (n - closest_power_of_2) (every_other ys))))"
  by pat_completeness auto
termination
  by (relation "measure (\<lambda>(num, n). if log2_is_integer n then 0 else 1)")
     (auto simp: log2_is_integer_double)

declare get_interleave.simps [simp del]

section \<open>Strings\<close>

text \<open>The test \<open>sub in s\<close> and the method \<open>s.replace(old, new)\<close> of Python strings.\<close>

primrec str_contains :: "string \<Rightarrow> string \<Rightarrow> bool" where
  "str_contains sub [] = (sub = [])"
| "str_contains sub (c # cs) = (prefix sub (c # cs) \<or> str_contains sub cs)"

fun str_replace :: "string \<Rightarrow> string \<Rightarrow> string \<Rightarrow> string" where
  "str_replace [] new s = new @ concat (map (\<lambda>c. c # new) s)"
| "str_replace (a # old) new [] = []"
| "str_replace (a # old) new (c # cs) =
     (if prefix (a # old) (c # cs)
      then new @ str_replace (a # old) new (drop (length old) cs)
      else c # str_replace (a # old) new cs)"

section \<open>Tensors\<close>

text \<open>
  A tensor is its shape, element type, device and its elements in row-major
  (logical) order.  Sizes, the world size and the rank are natural numbers.
\<close>

record 'a tensor =
  shape :: "nat list"
  dtype :: dtype
  device :: device
  data :: "'a list"

definition wf_tensor :: "'a tensor \<Rightarrow> bool" where
  "wf_tensor t = (length (data t) = prod_list (shape t))"

text \<open>\<open>t.view(*shp)\<close>: the number of elements must not change.\<close>

definition view :: "'a tensor \<Rightarrow> nat list \<Rightarrow> error + 'a tensor" where
  "view t shp =
     (if prod_list shp = prod_list (shape t) then Inr (t\<lparr>shape := shp\<rparr>) else Inl RuntimeError)"

text \<open>
  \<open>t.reshape(-1, cols)\<close>: the first size is inferred; it cannot be when \<open>cols\<close> is zero or
  does not divide the number of elements.
\<close>

definition reshape_rows :: "'a tensor \<Rightarrow> nat \<Rightarrow> error + 'a tensor" where
  "reshape_rows t cols =
     (let n = prod_list (shape t) in
      if cols = 0 \<or> n mod cols \<noteq> 0 then Inl RuntimeError
      else Inr (t\<lparr>shape := [n div cols, cols]\<rparr>))"

text \<open>
  The slice \<open>start:stop\<close> of dimension \<open>d\<close> (all other dimensions whole), for
  \<open>d < length (shape t)\<close> and non-negative bounds: the bounds are clamped to the size of the
  dimension, and a stop before the start gives an empty slice.
\<close>

definition slice_dim :: "nat \<Rightarrow> nat \<Rightarrow> nat \<Rightarrow> 'a tensor \<Rightarrow> 'a tensor" where
  "slice_dim d start stop t =
     (let n = shape t ! d;
          lo = min start n;
          hi = max lo (min stop n);
          outer = prod_list (take d (shape t));
          inner = prod_list (drop (Suc d) (shape t))
      in t\<lparr>shape := (shape t)[d := hi - lo],
           data := concat (map (\<lambda>k. take ((hi - lo) * inner) (drop ((k * n + lo) * inner) (data t)))
                            [0..<outer])\<rparr>)"

text \<open>\<open>t[start:stop]\<close>; a tensor without dimensions cannot be sliced.\<close>

definition getitem_slice :: "'a tensor \<Rightarrow> nat \<Rightarrow> nat \<Rightarrow> error + 'a tensor" where
  "getitem_slice t start stop =
     (if shape t = [] then Inl IndexError else Inr (slice_dim 0 start stop t))"

text \<open>
  The elements of \<open>src\<close> as \<open>copy_\<close> writes them into storage of element type \<open>d\<close>.
\<close>

definition values_as :: "'a numerics \<Rightarrow> dtype \<Rightarrow> 'a tensor \<Rightarrow> 'a list" where
  "values_as num d src = (if dtype src = d then data src else map (cast num d) (data src))"

text \<open>
  \<open>param.data[start:stop].copy_(src)\<close> for a \<open>src\<close> of the shape of the slice: the slice is
  a view, so the rows \<open>start:stop\<close> of \<open>param\<close> itself are overwritten.
\<close>

definition copy_rows :: "'a numerics \<Rightarrow> 'a tensor \<Rightarrow> nat \<Rightarrow> nat \<Rightarrow> 'a tensor \<Rightarrow> 'a tensor" where
  "copy_rows num param start stop src =
     (let n = hd (shape param);
          lo = min start n;
          hi = max lo (min stop n);
          inner = prod_list (tl (shape param))
      in param\<lparr>data := take (lo * inner) (data param) @ values_as num (dtype param) src @
                          drop (hi * inner) (data param)\<rparr>)"

definition to_dtype :: "'a numerics \<Rightarrow> dtype \<Rightarrow> 'a tensor \<Rightarrow> 'a tensor" where
  "to_dtype num d t = (if dtype t = d then t else t\<lparr>dtype := d, data := map (cast num d) (data t)\<rparr>)"

text \<open>
  \<open>torch.nn.functional.normalize(t)\<close>: the default dimension is 1, which a tensor of fewer
  than two dimensions does not have.
\<close>

definition F_normalize :: "'a numerics \<Rightarrow> 'a tensor \<Rightarrow> error + 'a tensor" where
  "F_normalize num t =
     (if length (shape t) < 2 then Inl IndexError
      else Inr (t\<lparr>data := l2_normalize num (dtype t) (shape t) (data t)\<rparr>))"

text \<open>\<open>torch.Tensor(xs)\<close> builds a one-dimensional single-precision tensor on the CPU.\<close>

definition get_alibi_slopes :: "'a numerics \<Rightarrow> nat \<Rightarrow> error + 'a tensor" where
  "get_alibi_slopes num total_num_heads =
     (case get_interleave num total_num_heads of
        Inl e \<Rightarrow> Inl e
      | Inr xs \<Rightarrow>
          Inr \<lparr>shape = [length xs], dtype = Float32, device = CPU,
               data = map (cast num Float32) xs\<rparr>)"

section \<open>Model construction\<close>

text \<open>
  The layer classes \<open>ColumnParallelLinear\<close>, \<open>RowParallelLinear\<close>, \<open>SiluAndMul\<close>,
  \<open>PagedAttentionWithALiBi\<close> and \<open>PagedAttentionWithRoPE\<close> are defined in other modules.
  Their constructors are parameters: each returns the module it builds (a value of \<open>'m\<close>) or
  the description of the exception it raises.  The linear layers are always built with
  \<open>bias=False\<close>; their two arguments here are the input and the output size.
\<close>

record ('a, 'm) layers =
  ColumnParallelLinear :: "nat \<Rightarrow> nat \<Rightarrow> string + 'm"
  RowParallelLinear :: "nat \<Rightarrow> nat \<Rightarrow> string + 'm"
  SiluAndMul :: "string + 'm"
  PagedAttentionWithALiBi :: "nat \<Rightarrow> nat \<Rightarrow> 'a \<Rightarrow> 'a list \<Rightarrow> string + 'm"
  PagedAttentionWithRoPE :: "nat \<Rightarrow> nat \<Rightarrow> 'a \<Rightarrow> nat \<Rightarrow> string + 'm"

record 'm MLP =
  gate_up_proj :: 'm
  down_proj :: 'm
  act_fn :: 'm

definition MLP_init :: "('a, 'm) layers \<Rightarrow> nat \<Rightarrow> nat \<Rightarrow> string \<Rightarrow> error + 'm MLP" where
  "MLP_init lay hidden intermediate hidden_act =
     (case ColumnParallelLinear lay hidden (2 * intermediate) of
        Inl x \<Rightarrow> Inl (Raised x)
      | Inr gu \<Rightarrow>
     (case RowParallelLinear lay intermediate hidden of
        Inl x \<Rightarrow> Inl (Raised x)
      | Inr dn \<Rightarrow>
     if hidden_act \<noteq> ''silu''
     then Inl (ValueError (''Unsupported activation: '' @ hidden_act @
                           ''. Only silu is supported for now.''))
     else
     (case SiluAndMul lay of
        Inl x \<Rightarrow> Inl (Raised x)
      | Inr a \<Rightarrow> Inr \<lparr>gate_up_proj = gu, down_proj = dn, act_fn = a\<rparr>)))"

record ('a, 'm) BaichuanAttention =
  self_hidden_size :: nat
  self_total_num_heads :: nat
  self_num_heads :: nat
  self_head_dim :: nat
  self_postion_embedding :: string
  self_W_pack :: 'm
  self_o_proj :: 'm
  self_scaling :: "'a option"
  self_attn :: 'm

text \<open>
  \<open>BaichuanAttention.__init__\<close>, with the world size and the rank of the process group as
  arguments.  \<open>head_dim ** -0.5\<close> raises \<open>ZeroDivisionError\<close> when \<open>head_dim\<close> is zero.
\<close>

definition BaichuanAttention_init ::
  "'a numerics \<Rightarrow> ('a, 'm) layers \<Rightarrow> nat \<Rightarrow> nat \<Rightarrow> nat \<Rightarrow> nat \<Rightarrow> string \<Rightarrow>
   error + ('a, 'm) BaichuanAttention" where
  "BaichuanAttention_init num lay tp_world_size tp_rank hidden n_heads position_embedding =
     (if tp_world_size = 0 then Inl ZeroDivisionError
      else if n_heads mod tp_world_size \<noteq> 0 then Inl (AssertionError [])
      else if n_heads = 0 then Inl ZeroDivisionError
      else
     (let num_heads = n_heads div tp_world_size;
          head_dim = hidden div n_heads
      in
      case ColumnParallelLinear lay hidden (3 * hidden) of
        Inl x \<Rightarrow> Inl (Raised x)
      | Inr wp \<Rightarrow>
     (case RowParallelLinear lay (n_heads * head_dim) hidden of
        Inl x \<Rightarrow> Inl (Raised x)
      | Inr op \<Rightarrow>
     if position_embedding = ''ALIBI'' then
       (let head_start = tp_rank * num_heads;
            head_end = (tp_rank + 1) * num_heads
        in
        case get_alibi_slopes num n_heads of
          Inl e \<Rightarrow> Inl e
        | Inr slopes \<Rightarrow>
       (case getitem_slice slopes head_start head_end of
          Inl e \<Rightarrow> Inl e
        | Inr sl \<Rightarrow>
       if head_dim = 0 then Inl ZeroDivisionError
       else
       (case PagedAttentionWithALiBi lay num_heads head_dim (pow_neg_half num head_dim) (data sl) of
          Inl x \<Rightarrow> Inl (Raised x)
        | Inr att \<Rightarrow>
            Inr \<lparr>self_hidden_size = hidden, self_total_num_heads = n_heads,
                 self_num_heads = num_heads, self_head_dim = head_dim,
                 self_postion_embedding = position_embedding,
                 self_W_pack = wp, self_o_proj = op, self_scaling = None,
                 self_attn = att\<rparr>)))
     else if head_dim = 0 then Inl ZeroDivisionError
     else
       (case PagedAttentionWithRoPE lay num_heads head_dim (pow_neg_half num head_dim) head_dim of
          Inl x \<Rightarrow> Inl (Raised x)
        | Inr att \<Rightarrow>
            Inr \<lparr>self_hidden_size = hidden, self_total_num_heads = n_heads,
                 self_num_heads = num_heads, self_head_dim = head_dim,
                 self_postion_embedding = position_embedding,
                 self_W_pack = wp, self_o_proj = op,
                 self_scaling = Some (pow_neg_half num head_dim),
                 self_attn = att\<rparr>))))"

section \<open>Loading the weights\<close>

text \<open>
  The helpers of \<open>weight_utils\<close> are parameters.  \<open>convert_pyslice_to_tensor\<close> returns a
  tensor; the two loaders write into the parameter they are given and return nothing,
  so here they return the parameter as they leave it.  Each may raise instead.
\<close>

record 'a helpers =
  convert_pyslice_to_tensor :: "'a tensor \<Rightarrow> string + 'a tensor"
  load_padded_tensor_parallel_vocab :: "'a tensor \<Rightarrow> 'a tensor \<Rightarrow> nat \<Rightarrow> string + 'a tensor"
  load_tensor_parallel_weights ::
    "'a tensor \<Rightarrow> 'a tensor \<Rightarrow> string \<Rightarrow> string list \<Rightarrow> string list \<Rightarrow> nat \<Rightarrow> string + 'a tensor"

record config =
  num_attention_heads :: nat
  hidden_size :: nat

type_synonym 'a state_dict = "string \<rightharpoonup> 'a tensor"

definition column_parallel_weights :: "string list" where
  "column_parallel_weights = []"

definition row_parallel_weights :: "string list" where
  "row_parallel_weights = [''o_proj.weight'', ''down_proj.weight'']"

text \<open>The branch of \<open>load_weights\<close> for a name that contains \<open>W_pack\<close>.\<close>

definition w_pack_shard :: "config \<Rightarrow> nat \<Rightarrow> nat \<Rightarrow> 'a tensor \<Rightarrow> error + 'a tensor" where
  "w_pack_shard cfg tp_world_size tp_rank loaded_weight =
     (let total_num_heads = num_attention_heads cfg;
          hidden = hidden_size cfg
      in
      if total_num_heads = 0 \<or> tp_world_size = 0 then Inl ZeroDivisionError
      else
     (let head_size = hidden div total_num_heads;
          num_heads = total_num_heads div tp_world_size;
          head_start = tp_rank * num_heads;
          head_end = (tp_rank + 1) * num_heads
      in
      case view loaded_weight [3, total_num_heads, head_size, hidden] of
        Inl e \<Rightarrow> Inl e
      | Inr v \<Rightarrow> reshape_rows (slice_dim 1 head_start head_end v) hidden))"

text \<open>
  The loop over \<open>enumerate(["gate_proj", "up_proj"])\<close>.  It returns the store and
  \<open>is_gate_up_weight\<close>.
\<close>

fun gate_up_loop ::
  "'a numerics \<Rightarrow> nat \<Rightarrow> 'a state_dict \<Rightarrow> string \<Rightarrow> 'a tensor \<Rightarrow> (nat \<times> string) list \<Rightarrow>
   error + ('a state_dict \<times> bool)" where
  "gate_up_loop num tp_rank sd name loaded_weight [] = Inr (sd, False)"
| "gate_up_loop num tp_rank sd name loaded_weight ((stride_id, weight_name) # rest) =
     (if \<not> str_contains weight_name name
      then gate_up_loop num tp_rank sd name loaded_weight rest
      else
     (let key = str_replace weight_name ''gate_up_proj'' name in
      case sd key of
        None \<Rightarrow> Inl (KeyError key)
      | Some param \<Rightarrow>
     (case shape param of
        [] \<Rightarrow> Inl IndexError
      | d0 # ds \<Rightarrow>
     (let shard_size = d0 div 2 in
      case getitem_slice loaded_weight (shard_size * tp_rank) (shard_size * (tp_rank + 1)) of
        Inl e \<Rightarrow> Inl e
      | Inr lw \<Rightarrow>
     (let param_slice =
            slice_dim 0 (shard_size * stride_id) (shard_size * (stride_id + 1)) param
      in
      if shape param_slice \<noteq> shape lw then Inl (AssertionError [])
      else Inr (sd(key \<mapsto> copy_rows num param (shard_size * stride_id)
                                 (shard_size * (stride_id + 1)) lw),
                True))))))"

text \<open>The normalisation of the \<open>lm_head.weight\<close> branch.\<close>

definition normalize_lm_head :: "'a numerics \<Rightarrow> 'a tensor \<Rightarrow> error + 'a tensor" where
  "normalize_lm_head num loaded_weight =
     (if dtype loaded_weight = Float16 \<and> device loaded_weight = CPU
      then
        (case F_normalize num (to_dtype num Float32 loaded_weight) of
           Inl e \<Rightarrow> Inl e
         | Inr t \<Rightarrow> Inr (to_dtype num Float16 t))
      else F_normalize num loaded_weight)"

text \<open>
  One iteration of the loop of \<open>load_weights\<close>, on the store and \<open>has_norm_head\<close>.
\<close>

fun load_entry ::
  "'a numerics \<Rightarrow> 'a helpers \<Rightarrow> config \<Rightarrow> nat \<Rightarrow> nat \<Rightarrow> 'a state_dict \<times> bool \<Rightarrow>
   string \<times> 'a tensor \<Rightarrow> error + ('a state_dict \<times> bool)" where
  "load_entry num hlp cfg tp_world_size tp_rank (sd, has_norm_head) (name, w) =
     (if str_contains ''rotary_emb.inv_freq'' name then Inr (sd, has_norm_head)
      else
     (case convert_pyslice_to_tensor hlp w of
        Inl x \<Rightarrow> Inl (Raised x)
      | Inr w1 \<Rightarrow>
     (case (if str_contains ''W_pack'' name
            then w_pack_shard cfg tp_world_size tp_rank w1 else Inr w1) of
        Inl e \<Rightarrow> Inl e
      | Inr w2 \<Rightarrow>
     (case gate_up_loop num tp_rank sd name w2 [(0, ''gate_proj''), (1, ''up_proj'')] of
        Inl e \<Rightarrow> Inl e
      | Inr (sd', True) \<Rightarrow> Inr (sd', has_norm_head)
      | Inr (sd', False) \<Rightarrow>
     (case sd name of
        None \<Rightarrow> Inl (KeyError name)
      | Some param \<Rightarrow>
     (case (if name = ''lm_head.weight'' then normalize_lm_head num w2 else Inr w2) of
        Inl e \<Rightarrow> Inl e
      | Inr w3 \<Rightarrow>
     (let has_norm_head' = (has_norm_head \<or> name = ''lm_head.weight'') in
      if str_contains ''embed_tokens'' name \<or> str_contains ''lm_head'' name
      then
        (case load_padded_tensor_parallel_vocab hlp param w3 tp_rank of
           Inl x \<Rightarrow> Inl (Raised x)
         | Inr param' \<Rightarrow> Inr (sd(name \<mapsto> param'), has_norm_head'))
      else
        (case load_tensor_parallel_weights hlp param w3 name column_parallel_weights
                row_parallel_weights tp_rank of
           Inl x \<Rightarrow> Inl (Raised x)
         | Inr param' \<Rightarrow> Inr (sd(name \<mapsto> param'), has_norm_head')))))))))"

fun load_entries ::
  "'a numerics \<Rightarrow> 'a helpers \<Rightarrow> config \<Rightarrow> nat \<Rightarrow> nat \<Rightarrow> 'a state_dict \<times> bool \<Rightarrow>
   (string \<times> 'a tensor) list \<Rightarrow> error + ('a state_dict \<times> bool)" where
  "load_entries num hlp cfg tp_world_size tp_rank st [] = Inr st"
| "load_entries num hlp cfg tp_world_size tp_rank st (entry # stream) =
     (case load_entry num hlp cfg tp_world_size tp_rank st entry of
        Inl e \<Rightarrow> Inl e
      | Inr st' \<Rightarrow> load_entries num hlp cfg tp_world_size tp_rank st' stream)"

text \<open>
  \<open>load_weights\<close> on the stream that \<open>hf_model_weights_iterator\<close> yields; the store is
  \<open>self.state_dict()\<close>, whose tensors share their storage with the parameters of the
  model, so the store returned is the model after the load.
\<close>

definition load_weights ::
  "'a numerics \<Rightarrow> 'a helpers \<Rightarrow> config \<Rightarrow> nat \<Rightarrow> nat \<Rightarrow> 'a state_dict \<Rightarrow>
   (string \<times> 'a tensor) list \<Rightarrow> error + 'a state_dict" where
  "load_weights num hlp cfg tp_world_size tp_rank state_dict stream =
     (case load_entries num hlp cfg tp_world_size tp_rank (state_dict, False) stream of
        Inl e \<Rightarrow> Inl e
      | Inr (sd, has_norm_head) \<Rightarrow>
          if has_norm_head then Inr sd
          else Inl (AssertionError ''lm_head silently evades normalization''))"

section \<open>Example values\<close>

text \<open>
  Concrete numerics, helpers and layers at which the theorems below are instantiated.
  An element of a tensor of \<open>ex_numerics\<close> is the list of the element types it has been
  converted to or normalised in, in order.
\<close>

definition ex_numerics :: "dtype list numerics" where
  "ex_numerics =
     \<lparr>cast = (\<lambda>d x. x @ [d]),
      l2_normalize = (\<lambda>d shp xs. map (\<lambda>x. x @ [d]) xs),
      alibi_slope = (\<lambda>n i. []),
      pow_neg_half = (\<lambda>n. [])\<rparr>"

definition ex_helpers :: "'a helpers" where
  "ex_helpers =
     \<lparr>convert_pyslice_to_tensor = Inr,
      load_padded_tensor_parallel_vocab = (\<lambda>param w r. Inr (param\<lparr>data := data w\<rparr>)),
      load_tensor_parallel_weights = (\<lambda>param w name cs rs r. Inr (param\<lparr>data := data w\<rparr>))\<rparr>"

definition ex_failing_helpers :: "'a helpers" where
  "ex_failing_helpers =
     \<lparr>convert_pyslice_to_tensor = (\<lambda>w. Inl ''convert''),
      load_padded_tensor_parallel_vocab = (\<lambda>param w r. Inl ''vocab''),
      load_tensor_parallel_weights = (\<lambda>param w name cs rs r. Inl ''weights'')\<rparr>"

definition ex_layers :: "('a, string) layers" where
  "ex_layers =
     \<lparr>ColumnParallelLinear = (\<lambda>i out. Inr ''column''),
      RowParallelLinear = (\<lambda>i out. Inr ''row''),
      SiluAndMul = Inr ''silu_and_mul'',
      PagedAttentionWithALiBi = (\<lambda>n d s sl. Inr ''alibi''),
      PagedAttentionWithRoPE = (\<lambda>n d s r. Inr ''rope'')\<rparr>"

definition ex_tensor :: "nat list \<Rightarrow> 'a list \<Rightarrow> 'a tensor" where
  "ex_tensor shp xs = \<lparr>shape = shp, dtype = Float16, device = CPU, data = xs\<rparr>"

definition ex_slope_numerics :: "(nat \<times> nat) numerics" where
  "ex_slope_numerics =
     \<lparr>cast = (\<lambda>d x. x),
      l2_normalize = (\<lambda>d shp xs. xs),
      alibi_slope = (\<lambda>n i. (n, i)),
      pow_neg_half = (\<lambda>n. (n, 0))\<rparr>"

definition ex_config :: config where
  "ex_config = \<lparr>num_attention_heads = 4, hidden_size = 32\<rparr>"

definition ex_store :: "dtype list state_dict" where
  "ex_store = [''lm_head.weight'' \<mapsto> ex_tensor [1, 1] [[]]]"

definition ex_plain_numerics :: "nat numerics" where
  "ex_plain_numerics =
     \<lparr>cast = (\<lambda>d x. x),
      l2_normalize = (\<lambda>d shp xs. xs),
      alibi_slope = (\<lambda>n i. i),
      pow_neg_half = (\<lambda>n. n)\<rparr>"

text \<open>
  The copy as the specification words it, for comparison with \<open>gate_up_loop\<close>: the shard
  size is the output size of the destination divided by two and by the world size; the
  rows \<open>[shard_size * rank, shard_size * (rank + 1))\<close> of the loaded tensor go to the rows
  \<open>[shard_size * ordinal, shard_size * (ordinal + 1))\<close> of the destination.
\<close>

definition gate_up_rows_as_claimed ::
  "'a numerics \<Rightarrow> nat \<Rightarrow> nat \<Rightarrow> nat \<Rightarrow> 'a tensor \<Rightarrow> 'a tensor \<Rightarrow> 'a tensor" where
  "gate_up_rows_as_claimed num world_size rank ordinal param loaded =
     (let shard_size = hd (shape param) div 2 div world_size in
      copy_rows num param (shard_size * ordinal) (shard_size * (ordinal + 1))
        (slice_dim 0 (shard_size * rank) (shard_size * (rank + 1)) loaded))"

definition ex_gate :: "nat tensor" where
  "ex_gate = ex_tensor [16, 1] [1, 2, 3, 4, 5, 6, 7, 8, 9, 10, 11, 12, 13, 14, 15, 16]"

definition ex_up :: "nat tensor" where
  "ex_up = ex_tensor [16, 1]
     [101, 102, 103, 104, 105, 106, 107, 108, 109, 110, 111, 112, 113, 114, 115, 116]"

text \<open>
  The normalisation as the specification words it for a tensor of reduced precision,
  for comparison with \<open>normalize_lm_head\<close>: computed in single precision, the result cast
  back to the element type of the source.
\<close>

definition normalize_elevated :: "'a numerics \<Rightarrow> 'a tensor \<Rightarrow> error + 'a tensor" where
  "normalize_elevated num t =
     (case F_normalize num (to_dtype num Float32 t) of
        Inl e \<Rightarrow> Inl e
      | Inr t' \<Rightarrow> Inr (to_dtype num (dtype t) t'))"

definition ex_cuda_tensor :: "dtype list tensor" where
  "ex_cuda_tensor = \<lparr>shape = [1, 1], dtype = Float16, device = CUDA 0, data = [[]]\<rparr>"

section \<open>The flag and the errors of the loop\<close>

lemma gate_up_loop_True:
  "gate_up_loop num rank sd name w [(0, ''gate_proj''), (1, ''up_proj'')] = Inr (sd', True) \<Longrightarrow>
   str_contains ''gate_proj'' name \<or> str_contains ''up_proj'' name"
  by (auto split: if_splits)

lemma gate_up_loop_error:
  "gate_up_loop num rank sd name w ps = Inl e \<Longrightarrow> e \<noteq> AssertionError (c # cs)"
  by (induction ps) (auto simp: Let_def getitem_slice_def split: if_splits option.splits list.splits sum.splits)

lemma w_pack_shard_error: "w_pack_shard cfg ws rank w = Inl e \<Longrightarrow> e \<noteq> AssertionError (c # cs)"
  by (auto simp: w_pack_shard_def Let_def view_def reshape_rows_def split: if_splits sum.splits)

lemma normalize_lm_head_error: "normalize_lm_head num w = Inl e \<Longrightarrow> e \<noteq> AssertionError (c # cs)"
  by (auto simp: normalize_lm_head_def F_normalize_def split: if_splits sum.splits)

lemma load_entry_error:
  "load_entry num hlp cfg ws rank st entry = Inl e \<Longrightarrow> e \<noteq> AssertionError (c # cs)"
proof (cases st; cases entry)
  fix sd h name w
  assume st: "st = (sd, h)" and en: "entry = (name, w)"
  assume "load_entry num hlp cfg ws rank st entry = Inl e"
  then show ?thesis
    unfolding st en
    by (auto simp: Let_def simp del: gate_up_loop.simps
        split: if_splits sum.splits option.splits prod.splits bool.splits
        dest: gate_up_loop_error w_pack_shard_error normalize_lm_head_error)
qed

lemma load_entry_flag:
  assumes "load_entry num hlp cfg ws rank (sd, h) (name, w) = Inr (sd', h')"
  shows "h' = (h \<or> name = ''lm_head.weight'')"
proof (cases "str_contains ''rotary_emb.inv_freq'' name")
  case True
  then have "name \<noteq> ''lm_head.weight''" by auto
  with True assms show ?thesis by simp
next
  case False
  show ?thesis
  proof (cases "name = ''lm_head.weight''")
    case True
    with assms show ?thesis
      by (simp add: Let_def split: sum.splits option.splits if_splits)
  next
    case nm: False
    with False assms show ?thesis
      by (auto simp: Let_def split: sum.splits option.splits if_splits prod.splits bool.splits)
  qed
qed

lemma load_entries_flag:
  "load_entries num hlp cfg ws rank (sd, h) stream = Inr (sd', h') \<Longrightarrow>
   h' = (h \<or> ''lm_head.weight'' \<in> fst ` set stream)"
proof (induction stream arbitrary: sd h)
  case Nil
  then show ?case by simp
next
  case (Cons entry stream)
  obtain name w where en: "entry = (name, w)" by (cases entry)
  from Cons.prems obtain sd1 h1 where
    step: "load_entry num hlp cfg ws rank (sd, h) (name, w) = Inr (sd1, h1)" and
    rest: "load_entries num hlp cfg ws rank (sd1, h1) stream = Inr (sd', h')"
    unfolding en by (auto split: sum.splits)
  from load_entry_flag [OF step] Cons.IH [OF rest] show ?case
    unfolding en by auto
qed

lemma load_entries_error:
  "load_entries num hlp cfg ws rank st stream = Inl e \<Longrightarrow> e \<noteq> AssertionError (c # cs)"
  by (induction stream arbitrary: st) (auto split: sum.splits dest: load_entry_error)

lemma load_weights_Inr_iff:
  "load_weights num hlp cfg ws rank sd stream = Inr sd' \<longleftrightarrow>
   load_entries num hlp cfg ws rank (sd, False) stream = Inr (sd', True)"
  by (auto simp: load_weights_def split: sum.splits prod.splits if_splits)

section \<open>Slopes and slices\<close>

lemma length_every_other: "length (every_other xs) = (length xs + 1) div 2"
  by (induction xs rule: every_other.induct) simp_all

lemma length_get_interleave_power_of_2 [simp]:
  "length (get_interleave_power_of_2 num n) = n"
  by (simp add: get_interleave_power_of_2_def)

lemma get_interleave_returns:
  assumes "1 \<le> n"
  shows "\<exists>ys. get_interleave num n = Inr ys \<and> length ys = n"
proof (cases "log2_is_integer n")
  case True
  with assms show ?thesis by (simp add: get_interleave.simps [of num n])
next
  case False
  define c where "c = (2::nat) ^ log2_floor n"
  have "c \<le> n" using assms log2_floor_le [of n] by (simp add: c_def)
  moreover have "n < 2 * c" using log2_floor_gt [of n] by (simp add: c_def)
  ultimately have le: "n - c \<le> c" by simp
  have pow: "log2_is_integer (2 * c)" unfolding c_def by (rule log2_is_integer_double)
  have "0 < c" by (simp add: c_def)
  with pow have rec: "get_interleave num (2 * c) = Inr (get_interleave_power_of_2 num (2 * c))"
    by (simp add: get_interleave.simps [of num "2 * c"])
  from assms False rec
  have "get_interleave num n =
      Inr (get_interleave_power_of_2 num c @
           take (n - c) (every_other (get_interleave_power_of_2 num (2 * c))))"
    by (simp add: get_interleave.simps [of num n] c_def Let_def)
  moreover have "length (get_interleave_power_of_2 num c @
           take (n - c) (every_other (get_interleave_power_of_2 num (2 * c)))) = n"
    using le \<open>c \<le> n\<close> by (simp add: length_every_other)
  ultimately show ?thesis by simp
qed

lemma slice_dim_0:
  assumes "shape t = n # ds"
  shows "slice_dim 0 a b t =
     t\<lparr>shape := (max (min a n) (min b n) - min a n) # ds,
       data := take ((max (min a n) (min b n) - min a n) * prod_list ds)
                 (drop (min a n * prod_list ds) (data t))\<rparr>"
  using assms by (simp add: slice_dim_def Let_def)

lemma slice_dim_0_in_range:
  assumes "shape t = n # ds" and "a \<le> b" and "b \<le> n"
  shows "slice_dim 0 a b t =
     t\<lparr>shape := (b - a) # ds, data := take ((b - a) * prod_list ds) (drop (a * prod_list ds) (data t))\<rparr>"
proof -
  from assms(2,3) have "min a n = a" "min b n = b" "max a b = b" by simp_all
  then show ?thesis by (simp add: slice_dim_0 [OF assms(1)])
qed

lemma rank_slice_bound:
  assumes "rank < ws"
  shows "(rank + 1) * (n div ws) \<le> (n::nat)"
proof -
  from assms have "(rank + 1) * (n div ws) \<le> ws * (n div ws)"
    by (intro mult_le_mono1) simp
  also have "\<dots> \<le> n" by simp
  finally show ?thesis .
qed

lemma concat_consecutive_blocks:
  "concat (map (\<lambda>r. take m (drop (off + r * m) xs)) [0..<n]) = take (n * m) (drop off xs)"
proof (induction n)
  case 0
  show ?case by simp
next
  case (Suc n)
  have "take (n * m + m) (drop off xs) =
        take (n * m) (drop off xs) @ take m (drop (n * m) (drop off xs))"
    by (rule take_add)
  with Suc show ?case by (simp add: add.commute)
qed

lemma distinct_blocks_disjoint:
  assumes "distinct xs" and "b + a \<le> d"
  shows "set (take a (drop b xs)) \<inter> set (take c (drop d xs)) = {}"
proof -
  have "take a (drop b xs) = drop b (take (b + a) xs)" by (simp add: drop_take)
  then have l: "set (take a (drop b xs)) \<subseteq> set (take (b + a) xs)"
    by (simp add: set_drop_subset)
  have "set (take c (drop d xs)) \<subseteq> set (drop d xs)" by (rule set_take_subset)
  also have "\<dots> \<subseteq> set (drop (b + a) xs)" using assms(2) by (rule set_drop_subset_set_drop)
  finally have r: "set (take c (drop d xs)) \<subseteq> set (drop (b + a) xs)" .
  from assms(1) have "distinct (take (b + a) xs @ drop (b + a) xs)" by simp
  then have "set (take (b + a) xs) \<inter> set (drop (b + a) xs) = {}"
    by (simp only: distinct_append) 
  with l r show ?thesis by blast
qed

lemma slice_dim_1_of_4:
  assumes "shape t = [a, n, c, d]" and "lo \<le> hi" and "hi \<le> n"
  shows "slice_dim 1 lo hi t =
     t\<lparr>shape := [a, hi - lo, c, d],
       data := concat (map (\<lambda>k. take ((hi - lo) * (c * d)) (drop ((k * n + lo) * (c * d)) (data t)))
                        [0..<a])\<rparr>"
proof -
  from assms(2,3) have "min lo n = lo" "min hi n = hi" "max lo hi = hi" by simp_all
  with assms(1) show ?thesis by (simp add: slice_dim_def Let_def)
qed

lemma upt_3: "[0..<3] = [0, 1, 2]"
  by (simp add: upt_rec)

lemma w_pack_shard_eq:
  assumes "num_attention_heads cfg = T" and "hidden_size cfg = H"
    and "0 < T" and "0 < ws" and "0 < H"
    and "prod_list (shape w) = 3 * T * (H div T) * H" and "rank < ws"
  shows "w_pack_shard cfg ws rank w =
     Inr (w\<lparr>shape := [3 * (T div ws) * (H div T), H],
            data := concat (map (\<lambda>k. take (T div ws * (H div T * H))
                                       (drop ((k * T + rank * (T div ws)) * (H div T * H)) (data w)))
                            [0, 1, 2])\<rparr>)"
proof -
  let ?nh = "T div ws" and ?hs = "H div T"
  let ?v = "w\<lparr>shape := [3, T, ?hs, H]\<rparr>"
  have v: "view w [3, T, ?hs, H] = Inr ?v"
    using assms(6) by (simp add: view_def mult.assoc)
  have lo: "rank * ?nh \<le> (rank + 1) * ?nh" by simp
  have hi: "(rank + 1) * ?nh \<le> T" using assms(7) by (rule rank_slice_bound)
  have d: "(rank + 1) * ?nh - rank * ?nh = ?nh" by simp
  have sh: "shape ?v = [3, T, ?hs, H]" by simp
  have sl: "slice_dim 1 (rank * ?nh) ((rank + 1) * ?nh) ?v =
     ?v\<lparr>shape := [3, ?nh, ?hs, H],
        data := concat (map (\<lambda>k. take (?nh * (?hs * H)) (drop ((k * T + rank * ?nh) * (?hs * H)) (data ?v)))
                        [0..<3])\<rparr>"
    using slice_dim_1_of_4 [OF sh lo hi] unfolding d .
  have "3 * ?nh * ?hs * H mod H = 0" by simp
  moreover have "3 * ?nh * ?hs * H div H = 3 * ?nh * ?hs" using assms(5) by simp
  ultimately have rs: "reshape_rows (slice_dim 1 (rank * ?nh) ((rank + 1) * ?nh) ?v) H =
     Inr (w\<lparr>shape := [3 * ?nh * ?hs, H],
            data := concat (map (\<lambda>k. take (?nh * (?hs * H)) (drop ((k * T + rank * ?nh) * (?hs * H)) (data w)))
                            [0, 1, 2])\<rparr>)"
    using assms(5) unfolding sl by (simp add: reshape_rows_def Let_def upt_3 mult.assoc)
  show ?thesis
    using assms(1-4) v rs by (simp add: w_pack_shard_def Let_def)
qed

lemma block_of_three:
  assumes "length b0 = m" and "length b1 = m" and "length b2 = m" and "k < 3"
  shows "take m (drop (k * m) (b0 @ b1 @ b2)) = [b0, b1, b2] ! k"
proof -
  from assms(4) consider "k = 0" | "k = 1" | "k = 2" by linarith
  then show ?thesis
    using assms(1-3) by cases simp_all
qed

lemma rank_row_slice:
  assumes "shape t = D # ds" and "rank < ws"
  shows "slice_dim 0 (D div ws * rank) (D div ws * (rank + 1)) t =
     t\<lparr>shape := D div ws # ds,
       data := take (D div ws * prod_list ds) (drop (D div ws * rank * prod_list ds) (data t))\<rparr>"
proof -
  have "D div ws * (rank + 1) \<le> D"
    using rank_slice_bound [OF assms(2), of D] by (simp add: mult.commute)
  from slice_dim_0_in_range [OF assms(1) _ this, of "D div ws * rank"] show ?thesis by simp
qed

lemma rank_row_slices_reassemble:
  assumes "ws dvd D" and "shape t = D # ds" and "wf_tensor t"
  shows "concat (map (\<lambda>rank. data (slice_dim 0 (D div ws * rank) (D div ws * (rank + 1)) t))
           [0..<ws]) = data t"
proof -
  let ?s = "D div ws"
  from assms(1) have full: "ws * ?s = D" by simp
  from assms(2,3) have wf: "length (data t) = D * prod_list ds" by (simp add: wf_tensor_def)
  have "concat (map (\<lambda>rank. data (slice_dim 0 (?s * rank) (?s * (rank + 1)) t)) [0..<ws]) =
        concat (map (\<lambda>rank. take (?s * prod_list ds) (drop (0 + rank * (?s * prod_list ds)) (data t)))
          [0..<ws])"
  proof (rule arg_cong [where f = concat], rule map_cong [OF refl])
    fix rank assume "rank \<in> set [0..<ws]"
    then have "rank < ws" by simp
    from rank_row_slice [OF assms(2) this]
    show "data (slice_dim 0 (?s * rank) (?s * (rank + 1)) t) =
        take (?s * prod_list ds) (drop (0 + rank * (?s * prod_list ds)) (data t))"
      by (simp add: ac_simps)
  qed
  also have "\<dots> = take (ws * (?s * prod_list ds)) (drop 0 (data t))"
    by (rule concat_consecutive_blocks)
  also have "\<dots> = data t" using wf full by (simp add: mult.assoc [symmetric])
  finally show ?thesis .
qed

lemma rank_head_slices_reassemble:
  assumes "ws dvd D" and "shape v = [3, D, hs, H]" and "wf_tensor v" and "k < 3"
  shows "concat (map (\<lambda>rank. take (D div ws * (hs * H)) (drop (k * (D div ws * (hs * H)))
                      (data (slice_dim 1 (rank * (D div ws)) ((rank + 1) * (D div ws)) v))))
           [0..<ws]) =
         take (D * (hs * H)) (drop (k * (D * (hs * H))) (data v))"
proof -
  let ?s = "D div ws" and ?I = "hs * H"
  let ?B = "\<lambda>rank j. take (?s * ?I) (drop ((j * D + rank * ?s) * ?I) (data v))"
  from assms(1) have full: "ws * ?s = D" by simp
  from assms(2,3) have wf: "length (data v) = 3 * D * ?I" by (simp add: wf_tensor_def mult.assoc)
  have len: "length (?B rank j) = ?s * ?I" if "rank < ws" "j < 3" for rank j
  proof -
    have "(rank + 1) * ?s \<le> D" using that(1) by (rule rank_slice_bound)
    then have "(j * D + (rank + 1) * ?s) * ?I \<le> (j * D + D) * ?I"
      by (intro mult_le_mono1 add_left_mono)
    also have "\<dots> \<le> 3 * D * ?I" using that(2) by (intro mult_le_mono1) (simp add: algebra_simps)
    finally have "(j * D + rank * ?s) * ?I + ?s * ?I \<le> length (data v)"
      using wf by (simp add: algebra_simps)
    then show ?thesis by simp
  qed
  have sl: "data (slice_dim 1 (rank * ?s) ((rank + 1) * ?s) v) = ?B rank 0 @ ?B rank 1 @ ?B rank 2"
    if "rank < ws" for rank
  proof -
    have "(rank + 1) * ?s \<le> D" using that by (rule rank_slice_bound)
    from slice_dim_1_of_4 [OF assms(2) _ this, of "rank * ?s"] show ?thesis by (simp add: upt_3)
  qed
  have pick: "take (?s * ?I) (drop (k * (?s * ?I)) (data (slice_dim 1 (rank * ?s) ((rank + 1) * ?s) v))) =
      take (?s * ?I) (drop (k * (D * ?I) + rank * (?s * ?I)) (data v))" if "rank < ws" for rank
  proof -
    have "take (?s * ?I) (drop (k * (?s * ?I)) (?B rank 0 @ ?B rank 1 @ ?B rank 2)) =
        [?B rank 0, ?B rank 1, ?B rank 2] ! k"
    proof (rule block_of_three [OF _ _ _ assms(4)])
      show "length (?B rank 0) = ?s * ?I" by (rule len [OF that]) simp
      show "length (?B rank 1) = ?s * ?I" by (rule len [OF that]) simp
      show "length (?B rank 2) = ?s * ?I" by (rule len [OF that]) simp
    qed
    also have "\<dots> = ?B rank k"
    proof -
      from assms(4) consider "k = 0" | "k = 1" | "k = 2" by linarith
      then show ?thesis by cases simp_all
    qed
    also have "\<dots> = take (?s * ?I) (drop (k * (D * ?I) + rank * (?s * ?I)) (data v))"
      by (simp add: algebra_simps)
    finally show ?thesis unfolding sl [OF that] .
  qed
  have "concat (map (\<lambda>rank. take (?s * ?I) (drop (k * (?s * ?I))
                            (data (slice_dim 1 (rank * ?s) ((rank + 1) * ?s) v)))) [0..<ws]) =
        concat (map (\<lambda>rank. take (?s * ?I) (drop (k * (D * ?I) + rank * (?s * ?I)) (data v))) [0..<ws])"
  proof (rule arg_cong [where f = concat], rule map_cong [OF refl])
    fix rank assume "rank \<in> set [0..<ws]"
    then have "rank < ws" by simp
    from pick [OF this]
    show "take (?s * ?I) (drop (k * (?s * ?I)) (data (slice_dim 1 (rank * ?s) ((rank + 1) * ?s) v))) =
        take (?s * ?I) (drop (k * (D * ?I) + rank * (?s * ?I)) (data v))" .
  qed
  also have "\<dots> = take (ws * (?s * ?I)) (drop (k * (D * ?I)) (data v))"
    by (rule concat_consecutive_blocks)
  also have "\<dots> = take (D * ?I) (drop (k * (D * ?I)) (data v))"
    using full by (simp add: mult.assoc [symmetric])
  finally show ?thesis .
qed

lemma rank_ranges_cover:
  fixes D :: nat
  assumes "ws dvd D"
  shows "(\<Union>rank<ws. {D div ws * rank ..< D div ws * (rank + 1)}) = {0..<D}"
proof (intro equalityI subsetI)
  let ?s = "D div ws"
  fix i assume "i \<in> (\<Union>rank<ws. {?s * rank ..< ?s * (rank + 1)})"
  then obtain rank where r: "rank < ws" and i: "i < ?s * (rank + 1)" by auto
  from rank_slice_bound [OF r, of D] i show "i \<in> {0..<D}" by (simp add: mult.commute)
next
  let ?s = "D div ws"
  from assms have full: "ws * ?s = D" by simp
  fix i assume "i \<in> {0..<D}"
  then have i: "i < ws * ?s" using full by simp
  then have pos: "0 < ?s" by (cases "?s = 0") simp_all
  from i pos have "i div ?s < ws" by (simp add: less_mult_imp_div_less)
  then have a: "i div ?s \<in> {..<ws}" by simp
  have "i < ?s * (i div ?s + 1)"
    using pos dividend_less_times_div [of ?s i] by (simp add: ac_simps)
  then have b: "i \<in> {?s * (i div ?s) ..< ?s * (i div ?s + 1)}" by simp
  from a b show "i \<in> (\<Union>rank<ws. {?s * rank ..< ?s * (rank + 1)})" by (rule UN_I)
qed

lemma rank_ranges_disjoint:
  assumes "r \<noteq> r'"
  shows "{s * r ..< s * (r + 1)} \<inter> {s * r' ..< s * (r' + 1)} = ({} :: nat set)"
proof -
  from assms consider "r + 1 \<le> r'" | "r' + 1 \<le> r" by linarith
  then show ?thesis
  proof cases
    case 1
    then have "s * (r + 1) \<le> s * r'" by (rule mult_le_mono2)
    then show ?thesis by auto
  next
    case 2
    then have "s * (r' + 1) \<le> s * r" by (rule mult_le_mono2)
    then show ?thesis by auto
  qed
qed

lemma w_pack_scenario:
  assumes "num_attention_heads cfg = 4" and "hidden_size cfg = 32"
    and "prod_list (shape w) = 3072"
  shows "w_pack_shard cfg 2 0 w =
           Inr (w\<lparr>shape := [48, 32],
                  data := take 512 (data w) @ take 512 (drop 1024 (data w)) @
                          take 512 (drop 2048 (data w))\<rparr>)"
    and "w_pack_shard cfg 2 1 w =
           Inr (w\<lparr>shape := [48, 32],
                  data := take 512 (drop 512 (data w)) @ take 512 (drop 1536 (data w)) @
                          take 512 (drop 2560 (data w))\<rparr>)"
proof -
  have p: "prod_list (shape w) = 3 * 4 * (32 div 4) * 32" using assms(3) by simp
  from w_pack_shard_eq [OF assms(1,2) _ _ _ p, of 2 0]
  show "w_pack_shard cfg 2 0 w =
           Inr (w\<lparr>shape := [48, 32],
                  data := take 512 (data w) @ take 512 (drop 1024 (data w)) @
                          take 512 (drop 2048 (data w))\<rparr>)"
    by simp
  from w_pack_shard_eq [OF assms(1,2) _ _ _ p, of 2 1]
  show "w_pack_shard cfg 2 1 w =
           Inr (w\<lparr>shape := [48, 32],
                  data := take 512 (drop 512 (data w)) @ take 512 (drop 1536 (data w)) @
                          take 512 (drop 2560 (data w))\<rparr>)"
    by simp
qed

lemma three_blocks_disjoint:
  assumes "distinct xs"
  shows "set (take 512 xs @ take 512 (drop 1024 xs) @ take 512 (drop 2048 xs)) \<inter>
         set (take 512 (drop 512 xs) @ take 512 (drop 1536 xs) @ take 512 (drop 2560 xs)) = {}"
proof -
  note d = distinct_blocks_disjoint [OF assms]
  have "set (take 512 (drop 0 xs)) \<inter> set (take 512 (drop 512 xs)) = {}" by (rule d) simp
  moreover have "set (take 512 (drop 0 xs)) \<inter> set (take 512 (drop 1536 xs)) = {}" by (rule d) simp
  moreover have "set (take 512 (drop 0 xs)) \<inter> set (take 512 (drop 2560 xs)) = {}" by (rule d) simp
  moreover have "set (take 512 (drop 512 xs)) \<inter> set (take 512 (drop 1024 xs)) = {}" by (rule d) simp
  moreover have "set (take 512 (drop 1024 xs)) \<inter> set (take 512 (drop 1536 xs)) = {}" by (rule d) simp
  moreover have "set (take 512 (drop 1024 xs)) \<inter> set (take 512 (drop 2560 xs)) = {}" by (rule d) simp
  moreover have "set (take 512 (drop 512 xs)) \<inter> set (take 512 (drop 2048 xs)) = {}" by (rule d) simp
  moreover have "set (take 512 (drop 1536 xs)) \<inter> set (take 512 (drop 2048 xs)) = {}" by (rule d) simp
  moreover have "set (take 512 (drop 2048 xs)) \<inter> set (take 512 (drop 2560 xs)) = {}" by (rule d) simp
  ultimately show ?thesis by (simp add: Int_Un_distrib Int_Un_distrib2 Int_commute)
qed

lemma load_entry_w_pack:
  assumes "\<not> str_contains ''rotary_emb.inv_freq'' name" and "str_contains ''W_pack'' name"
    and "\<not> str_contains ''gate_proj'' name" and "\<not> str_contains ''up_proj'' name"
    and "\<not> str_contains ''embed_tokens'' name" and "\<not> str_contains ''lm_head'' name"
    and "convert_pyslice_to_tensor hlp w = Inr w1" and "sd name = Some param"
    and "w_pack_shard cfg ws rank w1 = Inr w2"
  shows "load_entry num hlp cfg ws rank (sd, h) (name, w) =
     (case load_tensor_parallel_weights hlp param w2 name column_parallel_weights
             row_parallel_weights rank of
        Inl x \<Rightarrow> Inl (Raised x)
      | Inr param' \<Rightarrow> Inr (sd(name \<mapsto> param'), h))"
proof -
  from assms(6) have "name \<noteq> ''lm_head.weight''" by auto
  with assms show ?thesis by (simp split: sum.splits)
qed

section \<open>The fused gate and up projection\<close>

lemma gate_up_loop_match:
  assumes "(stride_id = 0 \<and> weight_name = ''gate_proj'' \<and> str_contains ''gate_proj'' name) \<or>
           (stride_id = 1 \<and> weight_name = ''up_proj'' \<and> \<not> str_contains ''gate_proj'' name \<and>
            str_contains ''up_proj'' name)"
    and "sd (str_replace weight_name ''gate_up_proj'' name) = Some param"
    and "shape param = d0 # ds" and "shape lw \<noteq> []"
  shows "gate_up_loop num rank sd name lw [(0, ''gate_proj''), (1, ''up_proj'')] =
     (if shape (slice_dim 0 (d0 div 2 * stride_id) (d0 div 2 * (stride_id + 1)) param) \<noteq>
         shape (slice_dim 0 (d0 div 2 * rank) (d0 div 2 * (rank + 1)) lw)
      then Inl (AssertionError [])
      else Inr (sd(str_replace weight_name ''gate_up_proj'' name \<mapsto>
                  copy_rows num param (d0 div 2 * stride_id) (d0 div 2 * (stride_id + 1))
                    (slice_dim 0 (d0 div 2 * rank) (d0 div 2 * (rank + 1)) lw)),
                True))"
  using assms(1)
proof (elim disjE conjE)
  assume "stride_id = 0" "weight_name = ''gate_proj''" "str_contains ''gate_proj'' name"
  with assms(2-4) show ?thesis by (simp add: getitem_slice_def Let_def)
next
  assume "stride_id = 1" "weight_name = ''up_proj''" "\<not> str_contains ''gate_proj'' name"
    "str_contains ''up_proj'' name"
  with assms(2-4) show ?thesis by (simp add: getitem_slice_def Let_def)
qed

lemma copy_rows_in_range:
  assumes "shape param = d0 # ds" and "start \<le> stop" and "stop \<le> d0"
  shows "copy_rows num param start stop src =
     param\<lparr>data := take (start * prod_list ds) (data param) @ values_as num (dtype param) src @
                     drop (stop * prod_list ds) (data param)\<rparr>"
proof -
  from assms(2,3) have "min start d0 = start" "min stop d0 = stop" "max start stop = stop"
    by simp_all
  with assms(1) show ?thesis by (simp add: copy_rows_def Let_def)
qed

lemma half_slot_bound:
  assumes "ordinal \<le> 1"
  shows "d0 div 2 * (ordinal + 1) \<le> (d0::nat)"
proof -
  from assms have "d0 div 2 * (ordinal + 1) \<le> d0 div 2 * 2" by (intro mult_le_mono2) simp
  also have "\<dots> \<le> d0" by simp
  finally show ?thesis .
qed

lemma load_entry_gate_up:
  assumes "\<not> str_contains ''rotary_emb.inv_freq'' name" and "\<not> str_contains ''W_pack'' name"
    and "str_contains ''gate_proj'' name \<or> str_contains ''up_proj'' name"
    and "convert_pyslice_to_tensor hlp w = Inr lw"
  shows "load_entry num hlp cfg ws rank (sd, h) (name, w) =
     (case gate_up_loop num rank sd name lw [(0, ''gate_proj''), (1, ''up_proj'')] of
        Inl e \<Rightarrow> Inl e
      | Inr (sd', b) \<Rightarrow> Inr (sd', h))"
proof -
  have "b" if "gate_up_loop num rank sd name lw [(0, ''gate_proj''), (1, ''up_proj'')] = Inr (sd', b)"
    for sd' b
    using that assms(3)
    by (auto simp: Let_def split: if_splits option.splits list.splits sum.splits)
  then show ?thesis
    using assms(1,2,4)
    by (auto simp del: gate_up_loop.simps split: sum.splits prod.splits bool.splits)
qed

section \<open>The output head\<close>

lemma load_entry_lm_head:
  assumes "convert_pyslice_to_tensor hlp w = Inr w1" and "sd ''lm_head.weight'' = Some param"
    and "normalize_lm_head num w1 = Inr w3"
  shows "load_entry num hlp cfg ws rank (sd, h) (''lm_head.weight'', w) =
     (case load_padded_tensor_parallel_vocab hlp param w3 rank of
        Inl x \<Rightarrow> Inl (Raised x)
      | Inr param' \<Rightarrow> Inr (sd(''lm_head.weight'' \<mapsto> param'), True))"
  using assms by (simp split: sum.splits)

lemma normalize_lm_head_half_cpu:
  assumes "dtype w1 = Float16" and "device w1 = CPU" and "2 \<le> length (shape w1)"
  shows "normalize_lm_head num w1 =
     Inr (w1\<lparr>data := map (cast num Float16)
                        (l2_normalize num Float32 (shape w1) (map (cast num Float32) (data w1)))\<rparr>)"
  using assms by (cases w1) (simp add: normalize_lm_head_def F_normalize_def to_dtype_def)

lemma normalize_lm_head_other:
  assumes "\<not> (dtype w1 = Float16 \<and> device w1 = CPU)" and "2 \<le> length (shape w1)"
  shows "normalize_lm_head num w1 =
     Inr (w1\<lparr>data := l2_normalize num (dtype w1) (shape w1) (data w1)\<rparr>)"
  using assms by (auto simp: normalize_lm_head_def F_normalize_def)

section \<open>The shards of all ranks\<close>

lemma w_pack_shard_data:
  assumes "num_attention_heads cfg = T" and "hidden_size cfg = H"
    and "0 < T" and "0 < ws" and "0 < H"
    and "shape w = [3 * T * (H div T), H]" and "rank < ws"
  shows "\<exists>t. w_pack_shard cfg ws rank w = Inr t \<and>
           shape t = [3 * (T div ws) * (H div T), H] \<and>
           data t = data (slice_dim 1 (rank * (T div ws)) ((rank + 1) * (T div ws))
                            (w\<lparr>shape := [3, T, H div T, H]\<rparr>))"
proof -
  from assms(6) have p: "prod_list (shape w) = 3 * T * (H div T) * H" by simp
  have hi: "(rank + 1) * (T div ws) \<le> T" using assms(7) by (rule rank_slice_bound)
  have lo: "rank * (T div ws) \<le> (rank + 1) * (T div ws)" by simp
  have d: "(rank + 1) * (T div ws) - rank * (T div ws) = T div ws" by simp
  have sh: "shape (w\<lparr>shape := [3, T, H div T, H]\<rparr>) = [3, T, H div T, H]" by simp
  have "data (slice_dim 1 (rank * (T div ws)) ((rank + 1) * (T div ws))
                 (w\<lparr>shape := [3, T, H div T, H]\<rparr>)) =
        concat (map (\<lambda>k. take (T div ws * (H div T * H))
                             (drop ((k * T + rank * (T div ws)) * (H div T * H)) (data w)))
                 [0, 1, 2])"
    using slice_dim_1_of_4 [OF sh lo hi] unfolding d by (simp add: upt_3)
  with w_pack_shard_eq [OF assms(1-5) p assms(7)] show ?thesis by simp
qed

lemma w_pack_shards_reassemble:
  assumes "ws dvd T" and "num_attention_heads cfg = T" and "hidden_size cfg = H"
    and "0 < T" and "0 < ws" and "0 < H"
    and "shape w = [3 * T * (H div T), H]" and "wf_tensor w" and "k < 3"
  shows "concat (map (\<lambda>rank. take (T div ws * (H div T * H)) (drop (k * (T div ws * (H div T * H)))
                      (case w_pack_shard cfg ws rank w of Inl e \<Rightarrow> [] | Inr t \<Rightarrow> data t)))
           [0..<ws]) =
         take (T * (H div T * H)) (drop (k * (T * (H div T * H))) (data w))"
proof -
  let ?v = "w\<lparr>shape := [3, T, H div T, H]\<rparr>"
  have sh: "shape ?v = [3, T, H div T, H]" by simp
  from assms(7,8) have wf: "wf_tensor ?v" by (simp add: wf_tensor_def mult.assoc)
  have "concat (map (\<lambda>rank. take (T div ws * (H div T * H)) (drop (k * (T div ws * (H div T * H)))
                      (case w_pack_shard cfg ws rank w of Inl e \<Rightarrow> [] | Inr t \<Rightarrow> data t)))
           [0..<ws]) =
        concat (map (\<lambda>rank. take (T div ws * (H div T * H)) (drop (k * (T div ws * (H div T * H)))
                      (data (slice_dim 1 (rank * (T div ws)) ((rank + 1) * (T div ws)) ?v))))
           [0..<ws])"
  proof (rule arg_cong [where f = concat], rule map_cong [OF refl])
    fix rank assume "rank \<in> set [0..<ws]"
    then have "rank < ws" by simp
    from w_pack_shard_data [OF assms(2,3,4,5,6,7) this]
    obtain t where "w_pack_shard cfg ws rank w = Inr t"
      and "data t = data (slice_dim 1 (rank * (T div ws)) ((rank + 1) * (T div ws)) ?v)"
      by blast
    then show "take (T div ws * (H div T * H)) (drop (k * (T div ws * (H div T * H)))
                      (case w_pack_shard cfg ws rank w of Inl e \<Rightarrow> [] | Inr t \<Rightarrow> data t)) =
        take (T div ws * (H div T * H)) (drop (k * (T div ws * (H div T * H)))
                      (data (slice_dim 1 (rank * (T div ws)) ((rank + 1) * (T div ws)) ?v)))"
      by simp
  qed
  also have "\<dots> = take (T * (H div T * H)) (drop (k * (T * (H div T * H))) (data ?v))"
    using assms(1) sh wf assms(9) by (rule rank_head_slices_reassemble)
  finally show ?thesis by simp
qed

lemma gate_up_loop_rank:
  assumes "(ordinal = 0 \<and> weight_name = ''gate_proj'' \<and> str_contains ''gate_proj'' name) \<or>
           (ordinal = 1 \<and> weight_name = ''up_proj'' \<and> \<not> str_contains ''gate_proj'' name \<and>
            str_contains ''up_proj'' name)"
    and "sd (str_replace weight_name ''gate_up_proj'' name) = Some param"
    and "shape param = (2 * (D div ws)) # ds" and "shape lw = D # ds" and "rank < ws"
  shows "gate_up_loop num rank sd name lw [(0, ''gate_proj''), (1, ''up_proj'')] =
     Inr (sd(str_replace weight_name ''gate_up_proj'' name \<mapsto>
            param\<lparr>data := take (D div ws * ordinal * prod_list ds) (data param) @
                            values_as num (dtype param)
                              (slice_dim 0 (D div ws * rank) (D div ws * (rank + 1)) lw) @
                            drop (D div ws * (ordinal + 1) * prod_list ds) (data param)\<rparr>),
          True)"
proof -
  let ?s = "D div ws"
  from assms(1) have ord: "ordinal \<le> 1" by auto
  have half: "2 * ?s div 2 = ?s" by simp
  have lo: "?s * ordinal \<le> ?s * (ordinal + 1)" by simp
  have hi: "?s * (ordinal + 1) \<le> 2 * ?s" using ord by (simp add: mult.commute)
  have d: "?s * (ordinal + 1) - ?s * ordinal = ?s" by simp
  have dst: "shape (slice_dim 0 (?s * ordinal) (?s * (ordinal + 1)) param) = ?s # ds"
    using slice_dim_0_in_range [OF assms(3) lo hi] unfolding d by simp
  have src: "shape (slice_dim 0 (?s * rank) (?s * (rank + 1)) lw) = ?s # ds"
    unfolding rank_row_slice [OF assms(4,5)] by simp
  from assms(4) have ne: "shape lw \<noteq> []" by simp
  note loop = gate_up_loop_match [where sd = sd and num = num and rank = rank,
      OF assms(1,2,3) ne, unfolded half]
  have cp: "copy_rows num param (?s * ordinal) (?s * (ordinal + 1))
        (slice_dim 0 (?s * rank) (?s * (rank + 1)) lw) =
      param\<lparr>data := take (?s * ordinal * prod_list ds) (data param) @
                      values_as num (dtype param)
                        (slice_dim 0 (?s * rank) (?s * (rank + 1)) lw) @
                      drop (?s * (ordinal + 1) * prod_list ds) (data param)\<rparr>"
    using assms(3) lo hi by (rule copy_rows_in_range)
  show ?thesis unfolding loop cp [symmetric] using dst src by simp
qed

lemma values_as_slices_reassemble:
  assumes "ws dvd D" and "shape lw = D # ds" and "wf_tensor lw"
  shows "concat (map (\<lambda>rank. values_as num d
             (slice_dim 0 (D div ws * rank) (D div ws * (rank + 1)) lw)) [0..<ws]) =
         values_as num d lw"
proof -
  have dt: "dtype (slice_dim 0 a b lw) = dtype lw" for a b
    by (simp add: slice_dim_def Let_def)
  note re = rank_row_slices_reassemble [OF assms]
  show ?thesis
  proof (cases "dtype lw = d")
    case True
    then show ?thesis using re by (simp add: values_as_def dt)
  next
    case False
    then have "concat (map (\<lambda>rank. values_as num d
             (slice_dim 0 (D div ws * rank) (D div ws * (rank + 1)) lw)) [0..<ws]) =
        concat (map (map (cast num d))
          (map (\<lambda>rank. data (slice_dim 0 (D div ws * rank) (D div ws * (rank + 1)) lw)) [0..<ws]))"
      by (simp add: values_as_def dt comp_def)
    also have "\<dots> = map (cast num d)
        (concat (map (\<lambda>rank. data (slice_dim 0 (D div ws * rank) (D div ws * (rank + 1)) lw)) [0..<ws]))"
      by (rule map_concat [symmetric])
    also have "\<dots> = values_as num d lw" using False unfolding re by (simp add: values_as_def)
    finally show ?thesis .
  qed
qed

lemma gate_up_written_rows:
  assumes "(ordinal = 0 \<and> weight_name = ''gate_proj'' \<and> str_contains ''gate_proj'' name) \<or>
           (ordinal = 1 \<and> weight_name = ''up_proj'' \<and> \<not> str_contains ''gate_proj'' name \<and>
            str_contains ''up_proj'' name)"
    and "sd (str_replace weight_name ''gate_up_proj'' name) = Some param"
    and "shape param = (2 * (D div ws)) # ds" and "wf_tensor param"
    and "shape lw = D # ds" and "wf_tensor lw" and "rank < ws"
  shows "(case gate_up_loop num rank sd name lw [(0, ''gate_proj''), (1, ''up_proj'')] of
            Inl e \<Rightarrow> []
          | Inr (sd', b) \<Rightarrow>
              (case sd' (str_replace weight_name ''gate_up_proj'' name) of
                 None \<Rightarrow> []
               | Some p \<Rightarrow> take (D div ws * prod_list ds)
                             (drop (D div ws * ordinal * prod_list ds) (data p)))) =
         values_as num (dtype param) (slice_dim 0 (D div ws * rank) (D div ws * (rank + 1)) lw)"
proof -
  let ?s = "D div ws" and ?I = "prod_list ds"
  let ?V = "values_as num (dtype param) (slice_dim 0 (?s * rank) (?s * (rank + 1)) lw)"
  from assms(1) have ord: "ordinal \<le> 1" by auto
  from assms(3,4) have lp: "length (data param) = 2 * ?s * ?I" by (simp add: wf_tensor_def)
  from assms(5,6) have ll: "length (data lw) = D * ?I" by (simp add: wf_tensor_def)
  have "?s * (rank + 1) \<le> D"
    using rank_slice_bound [OF assms(7), of D] by (simp add: mult.commute)
  then have "?s * (rank + 1) * ?I \<le> D * ?I" by (rule mult_le_mono1)
  then have "?s * rank * ?I + ?s * ?I \<le> length (data lw)" using ll by (simp add: algebra_simps)
  then have "length (take (?s * ?I) (drop (?s * rank * ?I) (data lw))) = ?s * ?I" by simp
  then have lv: "length ?V = ?s * ?I"
    unfolding rank_row_slice [OF assms(5,7)] by (simp add: values_as_def)
  from ord have "?s * ordinal * ?I \<le> 2 * ?s * ?I"
    by (intro mult_le_mono1) (simp add: mult.commute)
  then have lt: "length (take (?s * ordinal * ?I) (data param)) = ?s * ordinal * ?I"
    using lp by simp
  have "take (?s * ?I) (drop (?s * ordinal * ?I)
          (take (?s * ordinal * ?I) (data param) @ ?V @ drop (?s * (ordinal + 1) * ?I) (data param))) = ?V"
    using lt lv by simp
  then show ?thesis
    unfolding gate_up_loop_rank [where sd = sd and num = num, OF assms(1,2,3,5,7)] by simp
qed

section \<open>The claims\<close>

text \<open>
  Claim C8.  An entry whose name contains \<open>rotary_emb.inv_freq\<close> is skipped: the
  iteration returns the store and the flag as it found them (not even
  \<open>convert_pyslice_to_tensor\<close> is called), so the loop and the whole load give the same
  result on a stream with such an entry and on the stream without it.
\<close>

theorem rotary_inv_freq_entry_skipped:
  assumes "str_contains ''rotary_emb.inv_freq'' name"
  shows "load_entry num hlp cfg ws rank (sd, h) (name, w) = Inr (sd, h) \<and>
         load_entries num hlp cfg ws rank st (pre @ (name, w) # post) =
           load_entries num hlp cfg ws rank st (pre @ post) \<and>
         load_weights num hlp cfg ws rank sd (pre @ (name, w) # post) =
           load_weights num hlp cfg ws rank sd (pre @ post)"
proof -
  have step: "load_entry num hlp cfg ws rank s (name, w) = Inr s" for s
    using assms by (cases s) simp
  have loop: "load_entries num hlp cfg ws rank s (pre @ (name, w) # post) =
      load_entries num hlp cfg ws rank s (pre @ post)" for s
  proof (induction pre arbitrary: s)
    case Nil
    show ?case by (simp add: step)
  next
    case (Cons a pre)
    then show ?case by (simp split: sum.splits)
  qed
  show ?thesis using assms by (simp add: loop load_weights_def)
qed

theorem rotary_inv_freq_entry_skipped_witness:
  "str_contains ''rotary_emb.inv_freq'' ''model.layers.0.self_attn.rotary_emb.inv_freq'' \<and>
   load_entry ex_numerics ex_failing_helpers \<lparr>num_attention_heads = 4, hidden_size = 32\<rparr> 2 1
     ([''lm_head.weight'' \<mapsto> ex_tensor [1, 1] [[]]], False)
     (''model.layers.0.self_attn.rotary_emb.inv_freq'', ex_tensor [1] [[]]) =
   Inr ([''lm_head.weight'' \<mapsto> ex_tensor [1, 1] [[]]], False)"
proof -
  have c: "str_contains ''rotary_emb.inv_freq'' ''model.layers.0.self_attn.rotary_emb.inv_freq''"
    by simp
  from rotary_inv_freq_entry_skipped [OF c] c show ?thesis by blast
qed

text \<open>
  Claim C10.  The activation is checked in the constructor of the MLP block.  With a
  name other than \<open>silu\<close> the constructor never returns a block, and it raises the
  \<open>ValueError\<close> as soon as the two linear layers, which are built first, are built
  without an exception of their own.  With \<open>silu\<close> it never raises \<open>ValueError\<close>, and it
  returns the block when the three layers are built.
\<close>

theorem MLP_init_activation:
  "(hidden_act \<noteq> ''silu'' \<longrightarrow> (\<forall>m. MLP_init lay hidden intermediate hidden_act \<noteq> Inr m)) \<and>
   (hidden_act = ''silu'' \<longrightarrow> (\<forall>msg. MLP_init lay hidden intermediate hidden_act \<noteq> Inl (ValueError msg))) \<and>
   (ColumnParallelLinear lay hidden (2 * intermediate) = Inr gu \<and>
    RowParallelLinear lay intermediate hidden = Inr dn \<longrightarrow>
      (hidden_act \<noteq> ''silu'' \<longrightarrow>
         MLP_init lay hidden intermediate hidden_act =
           Inl (ValueError (''Unsupported activation: '' @ hidden_act @
                            ''. Only silu is supported for now.''))) \<and>
      (hidden_act = ''silu'' \<and> SiluAndMul lay = Inr a \<longrightarrow>
         MLP_init lay hidden intermediate hidden_act =
           Inr \<lparr>gate_up_proj = gu, down_proj = dn, act_fn = a\<rparr>))"
  by (auto simp: MLP_init_def split: sum.splits)

theorem MLP_init_activation_witness:
  "''gelu'' \<noteq> ''silu'' \<and>
   ColumnParallelLinear (ex_layers :: (nat, string) layers) 8 (2 * 16) = Inr ''column'' \<and>
   RowParallelLinear (ex_layers :: (nat, string) layers) 16 8 = Inr ''row'' \<and>
   SiluAndMul (ex_layers :: (nat, string) layers) = Inr ''silu_and_mul'' \<and>
   MLP_init (ex_layers :: (nat, string) layers) 8 16 ''gelu'' =
     Inl (ValueError ''Unsupported activation: gelu. Only silu is supported for now.'') \<and>
   MLP_init (ex_layers :: (nat, string) layers) 8 16 ''silu'' =
     Inr \<lparr>gate_up_proj = ''column'', down_proj = ''row'', act_fn = ''silu_and_mul''\<rparr>"
proof -
  have c: "ColumnParallelLinear (ex_layers :: (nat, string) layers) 8 (2 * 16) = Inr ''column''"
    and r: "RowParallelLinear (ex_layers :: (nat, string) layers) 16 8 = Inr ''row''"
    and s: "SiluAndMul (ex_layers :: (nat, string) layers) = Inr ''silu_and_mul''"
    by (simp_all add: ex_layers_def)
  have n: "''gelu'' \<noteq> ''silu''" by simp
  from MLP_init_activation
      [of "''gelu''" "ex_layers :: (nat, string) layers" 8 16 "''column''" "''row''" "''silu_and_mul''"]
    MLP_init_activation
      [of "''silu''" "ex_layers :: (nat, string) layers" 8 16 "''column''" "''row''" "''silu_and_mul''"]
    c r s n
  show ?thesis by simp
qed

text \<open>
  Claim C4.  When the world size does not divide the total number of heads, the
  constructor of the attention block fails on its assertion, before anything is built
  and for every hidden size, rank and position embedding: no block with a floored number
  of heads per rank exists.
\<close>

theorem BaichuanAttention_init_indivisible:
  assumes "0 < tp_world_size" and "n_heads mod tp_world_size \<noteq> 0"
  shows "BaichuanAttention_init num lay tp_world_size tp_rank hidden n_heads position_embedding =
           Inl (AssertionError [])"
  using assms by (simp add: BaichuanAttention_init_def)

theorem BaichuanAttention_init_indivisible_witness:
  "(0::nat) < 2 \<and> (3::nat) mod 2 \<noteq> 0 \<and>
   BaichuanAttention_init ex_numerics ex_layers 2 0 6 3 ''ALIBI'' = Inl (AssertionError [])"
proof -
  have a: "(0::nat) < 2" and b: "(3::nat) mod 2 \<noteq> 0" by simp_all
  from BaichuanAttention_init_indivisible [OF a b] a b show ?thesis by blast
qed

text \<open>
  Claim C3.  The load ends with the assertion error carrying the message
  \<open>lm_head silently evades normalization\<close> exactly when the loop reaches the end of the
  stream and no entry of the stream is named \<open>lm_head.weight\<close>.  A stream without such an
  entry never gives a successful load, and a stream with one (once or more) gives a
  successful load whenever the loop reaches its end.
\<close>

theorem load_weights_missing_lm_head:
  "(load_weights num hlp cfg ws rank sd stream =
      Inl (AssertionError ''lm_head silently evades normalization'') \<longleftrightarrow>
    (\<exists>st. load_entries num hlp cfg ws rank (sd, False) stream = Inr st) \<and>
    ''lm_head.weight'' \<notin> fst ` set stream) \<and>
   (''lm_head.weight'' \<notin> fst ` set stream \<longrightarrow>
      (\<forall>sd'. load_weights num hlp cfg ws rank sd stream \<noteq> Inr sd')) \<and>
   (''lm_head.weight'' \<in> fst ` set stream \<longrightarrow>
      (\<forall>sd' h. load_entries num hlp cfg ws rank (sd, False) stream = Inr (sd', h) \<longrightarrow>
         load_weights num hlp cfg ws rank sd stream = Inr sd'))"
proof (intro conjI)
  let ?loop = "load_entries num hlp cfg ws rank (sd, False) stream"
  let ?missing = "AssertionError ''lm_head silently evades normalization''"
  show "load_weights num hlp cfg ws rank sd stream = Inl ?missing \<longleftrightarrow>
    (\<exists>st. ?loop = Inr st) \<and> ''lm_head.weight'' \<notin> fst ` set stream"
  proof (cases ?loop)
    case (Inl e)
    from load_entries_error [OF Inl] have "e \<noteq> ?missing" .
    with Inl show ?thesis by (simp add: load_weights_def)
  next
    case (Inr st)
    obtain sd' h where st: "st = (sd', h)" by (cases st)
    from load_entries_flag [OF Inr [unfolded st]]
    have "h = (''lm_head.weight'' \<in> fst ` set stream)" by simp
    with Inr st show ?thesis by (simp add: load_weights_def)
  qed
  show "''lm_head.weight'' \<notin> fst ` set stream \<longrightarrow>
      (\<forall>sd'. load_weights num hlp cfg ws rank sd stream \<noteq> Inr sd')"
    using load_entries_flag [of num hlp cfg ws rank sd False stream]
    by (auto simp: load_weights_Inr_iff)
  show "''lm_head.weight'' \<in> fst ` set stream \<longrightarrow>
      (\<forall>sd' h. ?loop = Inr (sd', h) \<longrightarrow> load_weights num hlp cfg ws rank sd stream = Inr sd')"
    using load_entries_flag [of num hlp cfg ws rank sd False stream]
    by (auto simp: load_weights_Inr_iff)
qed

theorem load_weights_missing_lm_head_witness:
  "''lm_head.weight'' \<notin> fst ` set [(''model.layers.0.self_attn.rotary_emb.inv_freq'', ex_tensor [1] [[]])] \<and>
   load_weights ex_numerics ex_helpers ex_config 2 0 ex_store
     [(''model.layers.0.self_attn.rotary_emb.inv_freq'', ex_tensor [1] [[]])] =
     Inl (AssertionError ''lm_head silently evades normalization'') \<and>
   ''lm_head.weight'' \<in> fst ` set [(''lm_head.weight'', ex_tensor [1, 1] [[]])] \<and>
   load_weights ex_numerics ex_helpers ex_config 2 0 ex_store
     [(''lm_head.weight'', ex_tensor [1, 1] [[]])] =
     Inr [''lm_head.weight'' \<mapsto> ex_tensor [1, 1] [[Float32, Float32, Float16]]]"
proof -
  let ?s1 = "[(''model.layers.0.self_attn.rotary_emb.inv_freq'', ex_tensor [1] [[]])]"
  let ?s2 = "[(''lm_head.weight'', ex_tensor [1, 1] [[]])]"
  have n1: "''lm_head.weight'' \<notin> fst ` set ?s1" by simp
  have l1: "load_entries ex_numerics ex_helpers ex_config 2 0 (ex_store, False) ?s1 =
      Inr (ex_store, False)"
    by simp
  have n2: "''lm_head.weight'' \<in> fst ` set ?s2" by simp
  have l2: "load_entries ex_numerics ex_helpers ex_config 2 0 (ex_store, False) ?s2 =
      Inr ([''lm_head.weight'' \<mapsto> ex_tensor [1, 1] [[Float32, Float32, Float16]]], True)"
    by (simp add: ex_store_def ex_helpers_def ex_tensor_def ex_numerics_def
        normalize_lm_head_def F_normalize_def to_dtype_def)
  from load_weights_missing_lm_head [of ex_numerics ex_helpers ex_config 2 0 ex_store ?s1] n1 l1
  have r1: "load_weights ex_numerics ex_helpers ex_config 2 0 ex_store ?s1 =
      Inl (AssertionError ''lm_head silently evades normalization'')"
    by blast
  from load_weights_missing_lm_head [of ex_numerics ex_helpers ex_config 2 0 ex_store ?s2] n2 l2
  have r2: "load_weights ex_numerics ex_helpers ex_config 2 0 ex_store ?s2 =
      Inr [''lm_head.weight'' \<mapsto> ex_tensor [1, 1] [[Float32, Float32, Float16]]]"
    by blast
  from n1 r1 n2 r2 show ?thesis by blast
qed

text \<open>
  Claim C9.  For \<open>n \<ge> 1\<close> the slope list is returned and has \<open>n\<close> elements.  The function
  is total: its one recursive call is on twice the largest power of two below \<open>n\<close>, which
  is a power of two (this is its termination proof).  So the slope tensor of
  \<open>total_num_heads\<close> heads has that many elements, and for every world size and every rank
  below it the slice \<open>[rank * num_heads, (rank + 1) * num_heads)\<close> with
  \<open>num_heads = total_num_heads div world_size\<close> ends within the tensor and has \<open>num_heads\<close>
  elements.
\<close>

theorem get_interleave_length:
  assumes "1 \<le> n"
  shows "(\<exists>ys. get_interleave num n = Inr ys \<and> length ys = n) \<and>
         (\<not> log2_is_integer n \<longrightarrow> log2_is_integer (2 * 2 ^ log2_floor n)) \<and>
         (\<exists>t. get_alibi_slopes num n = Inr t \<and> shape t = [n] \<and> length (data t) = n \<and>
            (\<forall>ws rank. rank < ws \<longrightarrow>
               (rank + 1) * (n div ws) \<le> length (data t) \<and>
               (\<exists>sl. getitem_slice t (rank * (n div ws)) ((rank + 1) * (n div ws)) = Inr sl \<and>
                  shape sl = [n div ws] \<and>
                  data sl = take (n div ws) (drop (rank * (n div ws)) (data t)) \<and>
                  length (data sl) = n div ws)))"
proof (intro conjI)
  from get_interleave_returns [OF assms, of num]
  obtain ys where ys: "get_interleave num n = Inr ys" "length ys = n" by blast
  then show "\<exists>ys. get_interleave num n = Inr ys \<and> length ys = n" by blast
  show "\<not> log2_is_integer n \<longrightarrow> log2_is_integer (2 * 2 ^ log2_floor n)"
    by (simp add: log2_is_integer_double)
  define t where "t = \<lparr>shape = [length ys], dtype = Float32, device = CPU,
               data = map (cast num Float32) ys\<rparr>"
  have t: "get_alibi_slopes num n = Inr t" "shape t = [n]" "length (data t) = n"
    using ys by (simp_all add: get_alibi_slopes_def t_def)
  have "(rank + 1) * (n div ws) \<le> length (data t) \<and>
        (\<exists>sl. getitem_slice t (rank * (n div ws)) ((rank + 1) * (n div ws)) = Inr sl \<and>
           shape sl = [n div ws] \<and>
           data sl = take (n div ws) (drop (rank * (n div ws)) (data t)) \<and>
           length (data sl) = n div ws)" if "rank < ws" for ws rank
  proof -
    from rank_slice_bound [OF that] have b: "(rank + 1) * (n div ws) \<le> n" .
    have a: "rank * (n div ws) \<le> (rank + 1) * (n div ws)" by simp
    have d: "(rank + 1) * (n div ws) - rank * (n div ws) = n div ws" by simp
    from slice_dim_0_in_range [OF t(2) a b]
    have sl: "slice_dim 0 (rank * (n div ws)) ((rank + 1) * (n div ws)) t =
       t\<lparr>shape := [n div ws], data := take (n div ws) (drop (rank * (n div ws)) (data t))\<rparr>"
      unfolding d by simp
    have "length (take (n div ws) (drop (rank * (n div ws)) (data t))) = n div ws"
      using b t(3) by simp
    with sl b t show ?thesis by (simp add: getitem_slice_def)
  qed
  with t show "\<exists>t. get_alibi_slopes num n = Inr t \<and> shape t = [n] \<and> length (data t) = n \<and>
            (\<forall>ws rank. rank < ws \<longrightarrow>
               (rank + 1) * (n div ws) \<le> length (data t) \<and>
               (\<exists>sl. getitem_slice t (rank * (n div ws)) ((rank + 1) * (n div ws)) = Inr sl \<and>
                  shape sl = [n div ws] \<and>
                  data sl = take (n div ws) (drop (rank * (n div ws)) (data t)) \<and>
                  length (data sl) = n div ws))"
    by blast
qed

theorem get_interleave_length_witness:
  "(1::nat) \<le> 6 \<and> \<not> log2_is_integer 6 \<and> (1::nat) < 2 \<and>
   (\<exists>ys. get_interleave ex_slope_numerics 6 = Inr ys \<and> length ys = 6) \<and>
   get_interleave ex_slope_numerics 6 = Inr [(4, 0), (4, 1), (4, 2), (4, 3), (8, 0), (8, 2)] \<and>
   (\<exists>t sl. get_alibi_slopes ex_slope_numerics 6 = Inr t \<and>
      getitem_slice t (1 * (6 div 2)) ((1 + 1) * (6 div 2)) = Inr sl \<and>
      data sl = [(4, 3), (8, 0), (8, 2)])"
proof -
  have a: "(1::nat) \<le> 6" and b: "(1::nat) < 2" by simp_all
  have c: "\<not> log2_is_integer 6" by code_simp
  have v: "get_interleave ex_slope_numerics 6 = Inr [(4, 0), (4, 1), (4, 2), (4, 3), (8, 0), (8, 2)]"
    by code_simp
  from get_interleave_length [OF a, of ex_slope_numerics] b
  obtain t sl where t: "get_alibi_slopes ex_slope_numerics 6 = Inr t"
    and sl: "getitem_slice t (1 * (6 div 2)) ((1 + 1) * (6 div 2)) = Inr sl"
    and d: "data sl = take (6 div 2) (drop (1 * (6 div 2)) (data t))"
    by blast
  from t v have "data t = [(4, 0), (4, 1), (4, 2), (4, 3), (8, 0), (8, 2)]"
    by (auto simp: get_alibi_slopes_def ex_slope_numerics_def)
  with d have "data sl = [(4, 3), (8, 0), (8, 2)]" by simp
  with t sl have e: "\<exists>t sl. get_alibi_slopes ex_slope_numerics 6 = Inr t \<and>
      getitem_slice t (1 * (6 div 2)) ((1 + 1) * (6 div 2)) = Inr sl \<and>
      data sl = [(4, 3), (8, 0), (8, 2)]"
    by blast
  from get_interleave_length [OF a, of ex_slope_numerics]
  have "\<exists>ys. get_interleave ex_slope_numerics 6 = Inr ys \<and> length ys = 6" by blast
  with a b c v e show ?thesis by blast
qed

text \<open>
  Claim C7.  Let the world size \<open>ws \<ge> 1\<close> divide \<open>D\<close>.

  For the fused query, key and value projection of a configuration with \<open>D\<close> heads, the
  branch for \<open>W_pack\<close> returns a shard for every rank below \<open>ws\<close>, and for each of the three
  projections the parts of the shards of the ranks \<open>0, \<dots>, ws - 1\<close>, concatenated in rank
  order, are all \<open>D\<close> heads of that projection of the loaded tensor, in their order.

  For a gate or up projection with \<open>D\<close> output rows, whose destination on each rank has
  twice \<open>D div ws\<close> rows (so that the shard size of the code, half the rows of the
  destination, is \<open>D div ws\<close>), the loop over the two names copies on every rank below
  \<open>ws\<close> the rows \<open>[shard_size * rank, shard_size * (rank + 1))\<close> of the loaded tensor, and
  the rows that the ranks \<open>0, \<dots>, ws - 1\<close> have written, concatenated in rank order, are
  the loaded tensor as \<open>copy_\<close> stores it.

  The index ranges of the ranks cover \<open>[0, D)\<close> and are pairwise disjoint: no row is
  missing and none is taken twice.
\<close>

theorem rank_shards_partition:
  assumes "1 \<le> ws" and "ws dvd D"
  shows "(\<forall>cfg w H. num_attention_heads cfg = D \<and> hidden_size cfg = H \<and> 0 < D \<and> 0 < H \<and>
            shape w = [3 * D * (H div D), H] \<and> wf_tensor w \<longrightarrow>
            (\<forall>rank<ws. \<exists>t. w_pack_shard cfg ws rank w = Inr t \<and>
                 shape t = [3 * (D div ws) * (H div D), H]) \<and>
            (\<forall>k<3.
               concat (map (\<lambda>rank. take (D div ws * (H div D * H))
                              (drop (k * (D div ws * (H div D * H)))
                                 (case w_pack_shard cfg ws rank w of
                                    Inl e \<Rightarrow> [] | Inr t \<Rightarrow> data t)))
                        [0..<ws]) =
               take (D * (H div D * H)) (drop (k * (D * (H div D * H))) (data w)))) \<and>
         (\<forall>num sd name lw param ds ordinal weight_name.
            ((ordinal = 0 \<and> weight_name = ''gate_proj'' \<and> str_contains ''gate_proj'' name) \<or>
             (ordinal = 1 \<and> weight_name = ''up_proj'' \<and> \<not> str_contains ''gate_proj'' name \<and>
              str_contains ''up_proj'' name)) \<and>
            sd (str_replace weight_name ''gate_up_proj'' name) = Some param \<and>
            shape param = (2 * (D div ws)) # ds \<and> wf_tensor param \<and>
            shape lw = D # ds \<and> wf_tensor lw \<longrightarrow>
            (\<forall>rank<ws.
               gate_up_loop num rank sd name lw [(0, ''gate_proj''), (1, ''up_proj'')] =
                 Inr (sd(str_replace weight_name ''gate_up_proj'' name \<mapsto>
                        param\<lparr>data := take (D div ws * ordinal * prod_list ds) (data param) @
                                        values_as num (dtype param)
                                          (slice_dim 0 (D div ws * rank) (D div ws * (rank + 1)) lw) @
                                        drop (D div ws * (ordinal + 1) * prod_list ds) (data param)\<rparr>),
                      True)) \<and>
            concat (map (\<lambda>rank.
                      case gate_up_loop num rank sd name lw [(0, ''gate_proj''), (1, ''up_proj'')] of
                        Inl e \<Rightarrow> []
                      | Inr (sd', b) \<Rightarrow>
                          (case sd' (str_replace weight_name ''gate_up_proj'' name) of
                             None \<Rightarrow> []
                           | Some p \<Rightarrow> take (D div ws * prod_list ds)
                                         (drop (D div ws * ordinal * prod_list ds) (data p))))
                     [0..<ws]) =
              values_as num (dtype param) lw) \<and>
         (\<Union>rank<ws. {D div ws * rank ..< D div ws * (rank + 1)}) = {0..<D} \<and>
         (\<forall>r<ws. \<forall>r'<ws. r \<noteq> r' \<longrightarrow>
            {D div ws * r ..< D div ws * (r + 1)} \<inter> {D div ws * r' ..< D div ws * (r' + 1)} = {})"
proof (intro conjI)
  from assms(1) have pos: "0 < ws" by simp
  show "\<forall>cfg w H. num_attention_heads cfg = D \<and> hidden_size cfg = H \<and> 0 < D \<and> 0 < H \<and>
            shape w = [3 * D * (H div D), H] \<and> wf_tensor w \<longrightarrow>
            (\<forall>rank<ws. \<exists>t. w_pack_shard cfg ws rank w = Inr t \<and>
                 shape t = [3 * (D div ws) * (H div D), H]) \<and>
            (\<forall>k<3.
               concat (map (\<lambda>rank. take (D div ws * (H div D * H))
                              (drop (k * (D div ws * (H div D * H)))
                                 (case w_pack_shard cfg ws rank w of
                                    Inl e \<Rightarrow> [] | Inr t \<Rightarrow> data t)))
                        [0..<ws]) =
               take (D * (H div D * H)) (drop (k * (D * (H div D * H))) (data w)))"
    (is "\<forall>cfg w H. ?P cfg w H \<longrightarrow> ?Q cfg w H \<and> ?R cfg w H")
  proof (intro allI impI)
    fix cfg w H
    assume p: "?P cfg w H"
    then have c: "num_attention_heads cfg = D" "hidden_size cfg = H" "0 < D" "0 < H"
      "shape w = [3 * D * (H div D), H]" "wf_tensor w" by simp_all
    have q: "?Q cfg w H"
    proof (intro allI impI)
      fix rank assume "rank < ws"
      from w_pack_shard_data [OF c(1,2,3) pos c(4,5) this]
      show "\<exists>t. w_pack_shard cfg ws rank w = Inr t \<and> shape t = [3 * (D div ws) * (H div D), H]"
        by blast
    qed
    have r: "?R cfg w H"
    proof (intro allI impI)
      fix k :: nat assume "k < 3"
      with assms(2) c(1,2,3) pos c(4,5,6)
      show "concat (map (\<lambda>rank. take (D div ws * (H div D * H))
                              (drop (k * (D div ws * (H div D * H)))
                                 (case w_pack_shard cfg ws rank w of
                                    Inl e \<Rightarrow> [] | Inr t \<Rightarrow> data t)))
                        [0..<ws]) =
               take (D * (H div D * H)) (drop (k * (D * (H div D * H))) (data w))"
        by (rule w_pack_shards_reassemble)
    qed
    from q r show "?Q cfg w H \<and> ?R cfg w H" ..
  qed
  show "\<forall>num sd name lw param ds ordinal weight_name.
            ((ordinal = 0 \<and> weight_name = ''gate_proj'' \<and> str_contains ''gate_proj'' name) \<or>
             (ordinal = 1 \<and> weight_name = ''up_proj'' \<and> \<not> str_contains ''gate_proj'' name \<and>
              str_contains ''up_proj'' name)) \<and>
            sd (str_replace weight_name ''gate_up_proj'' name) = Some param \<and>
            shape param = (2 * (D div ws)) # ds \<and> wf_tensor param \<and>
            shape lw = D # ds \<and> wf_tensor lw \<longrightarrow>
            (\<forall>rank<ws.
               gate_up_loop num rank sd name lw [(0, ''gate_proj''), (1, ''up_proj'')] =
                 Inr (sd(str_replace weight_name ''gate_up_proj'' name \<mapsto>
                        param\<lparr>data := take (D div ws * ordinal * prod_list ds) (data param) @
                                        values_as num (dtype param)
                                          (slice_dim 0 (D div ws * rank) (D div ws * (rank + 1)) lw) @
                                        drop (D div ws * (ordinal + 1) * prod_list ds) (data param)\<rparr>),
                      True)) \<and>
            concat (map (\<lambda>rank.
                      case gate_up_loop num rank sd name lw [(0, ''gate_proj''), (1, ''up_proj'')] of
                        Inl e \<Rightarrow> []
                      | Inr (sd', b) \<Rightarrow>
                          (case sd' (str_replace weight_name ''gate_up_proj'' name) of
                             None \<Rightarrow> []
                           | Some p \<Rightarrow> take (D div ws * prod_list ds)
                                         (drop (D div ws * ordinal * prod_list ds) (data p))))
                     [0..<ws]) =
              values_as num (dtype param) lw"
    (is "\<forall>num sd name lw param ds ordinal weight_name.
           ?P num sd name lw param ds ordinal weight_name \<longrightarrow>
           ?Q num sd name lw param ds ordinal weight_name \<and>
           ?R num sd name lw param ds ordinal weight_name")
  proof (intro allI impI)
    fix num sd name lw param ds ordinal weight_name
    assume p: "?P num sd name lw param ds ordinal weight_name"
    then have m: "(ordinal = 0 \<and> weight_name = ''gate_proj'' \<and> str_contains ''gate_proj'' name) \<or>
             (ordinal = 1 \<and> weight_name = ''up_proj'' \<and> \<not> str_contains ''gate_proj'' name \<and>
              str_contains ''up_proj'' name)"
      and k: "sd (str_replace weight_name ''gate_up_proj'' name) = Some param"
      and sp: "shape param = (2 * (D div ws)) # ds" and wp: "wf_tensor param"
      and sl: "shape lw = D # ds" and wl: "wf_tensor lw"
      by blast+
    have q: "?Q num sd name lw param ds ordinal weight_name"
    proof (intro allI impI)
      fix rank assume "rank < ws"
      with m k sp sl
      show "gate_up_loop num rank sd name lw [(0, ''gate_proj''), (1, ''up_proj'')] =
                 Inr (sd(str_replace weight_name ''gate_up_proj'' name \<mapsto>
                        param\<lparr>data := take (D div ws * ordinal * prod_list ds) (data param) @
                                        values_as num (dtype param)
                                          (slice_dim 0 (D div ws * rank) (D div ws * (rank + 1)) lw) @
                                        drop (D div ws * (ordinal + 1) * prod_list ds) (data param)\<rparr>),
                      True)"
        by (rule gate_up_loop_rank)
    qed
    have "concat (map (\<lambda>rank.
                      case gate_up_loop num rank sd name lw [(0, ''gate_proj''), (1, ''up_proj'')] of
                        Inl e \<Rightarrow> []
                      | Inr (sd', b) \<Rightarrow>
                          (case sd' (str_replace weight_name ''gate_up_proj'' name) of
                             None \<Rightarrow> []
                           | Some p \<Rightarrow> take (D div ws * prod_list ds)
                                         (drop (D div ws * ordinal * prod_list ds) (data p))))
                     [0..<ws]) =
          concat (map (\<lambda>rank. values_as num (dtype param)
                     (slice_dim 0 (D div ws * rank) (D div ws * (rank + 1)) lw)) [0..<ws])"
    proof (rule arg_cong [where f = concat], rule map_cong [OF refl])
      fix rank assume "rank \<in> set [0..<ws]"
      then have "rank < ws" by simp
      with m k sp wp sl wl
      show "(case gate_up_loop num rank sd name lw [(0, ''gate_proj''), (1, ''up_proj'')] of
                        Inl e \<Rightarrow> []
                      | Inr (sd', b) \<Rightarrow>
                          (case sd' (str_replace weight_name ''gate_up_proj'' name) of
                             None \<Rightarrow> []
                           | Some p \<Rightarrow> take (D div ws * prod_list ds)
                                         (drop (D div ws * ordinal * prod_list ds) (data p)))) =
          values_as num (dtype param) (slice_dim 0 (D div ws * rank) (D div ws * (rank + 1)) lw)"
        by (rule gate_up_written_rows)
    qed
    also have "\<dots> = values_as num (dtype param) lw"
      using assms(2) sl wl by (rule values_as_slices_reassemble)
    finally have r: "?R num sd name lw param ds ordinal weight_name" .
    from q r show "?Q num sd name lw param ds ordinal weight_name \<and>
           ?R num sd name lw param ds ordinal weight_name" ..
  qed
  show "(\<Union>rank<ws. {D div ws * rank ..< D div ws * (rank + 1)}) = {0..<D}"
    using assms(2) by (rule rank_ranges_cover)
  show "\<forall>r<ws. \<forall>r'<ws. r \<noteq> r' \<longrightarrow>
            {D div ws * r ..< D div ws * (r + 1)} \<inter> {D div ws * r' ..< D div ws * (r' + 1)} = {}"
    by (intro allI impI rank_ranges_disjoint)
qed

theorem rank_shards_partition_witness:
  "(1::nat) \<le> 2 \<and> (2::nat) dvd 4 \<and> (1::nat) < 3 \<and> (1::nat) < 2 \<and>
   num_attention_heads \<lparr>num_attention_heads = 4, hidden_size = 4\<rparr> = 4 \<and>
   hidden_size \<lparr>num_attention_heads = 4, hidden_size = 4\<rparr> = 4 \<and>
   shape (ex_tensor [12, 4] [0..<48]) = [3 * 4 * (4 div 4), 4] \<and>
   wf_tensor (ex_tensor [12, 4] [0..<48]) \<and>
   w_pack_shard \<lparr>num_attention_heads = 4, hidden_size = 4\<rparr> 2 1 (ex_tensor [12, 4] [0..<48]) =
     Inr (ex_tensor [6, 4] ([8..<16] @ [24..<32] @ [40..<48])) \<and>
   concat (map (\<lambda>rank. take (4 div 2 * (4 div 4 * 4))
                  (drop (1 * (4 div 2 * (4 div 4 * 4)))
                     (case w_pack_shard \<lparr>num_attention_heads = 4, hidden_size = 4\<rparr> 2 rank
                             (ex_tensor [12, 4] [0..<48]) of
                        Inl e \<Rightarrow> [] | Inr t \<Rightarrow> data t)))
            [0..<2]) = [16..<32] \<and>
   str_contains ''gate_proj'' ''model.layers.0.mlp.gate_proj.weight'' \<and>
   [''model.layers.0.mlp.gate_up_proj.weight'' \<mapsto> ex_tensor [4, 1] [0, 0, 0, 0 :: nat]]
     (str_replace ''gate_proj'' ''gate_up_proj'' ''model.layers.0.mlp.gate_proj.weight'') =
     Some (ex_tensor [4, 1] [0, 0, 0, 0]) \<and>
   shape (ex_tensor [4, 1] [0, 0, 0, 0 :: nat]) = [2 * (4 div 2), 1] \<and>
   wf_tensor (ex_tensor [4, 1] [0, 0, 0, 0 :: nat]) \<and>
   shape (ex_tensor [4, 1] [1, 2, 3, 4 :: nat]) = [4, 1] \<and>
   wf_tensor (ex_tensor [4, 1] [1, 2, 3, 4 :: nat]) \<and>
   gate_up_loop ex_plain_numerics 1
     [''model.layers.0.mlp.gate_up_proj.weight'' \<mapsto> ex_tensor [4, 1] [0, 0, 0, 0]]
     ''model.layers.0.mlp.gate_proj.weight'' (ex_tensor [4, 1] [1, 2, 3, 4])
     [(0, ''gate_proj''), (1, ''up_proj'')] =
   Inr ([''model.layers.0.mlp.gate_up_proj.weight'' \<mapsto> ex_tensor [4, 1] [3, 4, 0, 0]], True) \<and>
   concat (map (\<lambda>rank.
             case gate_up_loop ex_plain_numerics rank
                    [''model.layers.0.mlp.gate_up_proj.weight'' \<mapsto> ex_tensor [4, 1] [0, 0, 0, 0]]
                    ''model.layers.0.mlp.gate_proj.weight'' (ex_tensor [4, 1] [1, 2, 3, 4])
                    [(0, ''gate_proj''), (1, ''up_proj'')] of
               Inl e \<Rightarrow> []
             | Inr (sd', b) \<Rightarrow>
                 (case sd' (str_replace ''gate_proj'' ''gate_up_proj''
                              ''model.layers.0.mlp.gate_proj.weight'') of
                    None \<Rightarrow> []
                  | Some p \<Rightarrow> take (4 div 2 * prod_list [1])
                                (drop (4 div 2 * 0 * prod_list [1]) (data p))))
            [0..<2]) = [1, 2, 3, 4] \<and>
   (\<Union>rank<2. {4 div 2 * rank ..< 4 div 2 * (rank + 1)}) = {0..<4::nat}"
proof -
  let ?cfg = "\<lparr>num_attention_heads = 4, hidden_size = 4\<rparr>"
  let ?W = "ex_tensor [12, 4] [0..<48]"
  let ?P = "ex_tensor [4, 1] [0, 0, 0, 0 :: nat]"
  let ?G = "ex_tensor [4, 1] [1, 2, 3, 4 :: nat]"
  let ?name = "''model.layers.0.mlp.gate_proj.weight''"
  let ?sd = "[''model.layers.0.mlp.gate_up_proj.weight'' \<mapsto> ?P]"
  have a: "(1::nat) \<le> 2" and b: "(2::nat) dvd 4" and k3: "(1::nat) < 3" and r2: "(1::nat) < 2"
    by simp_all
  have c1: "num_attention_heads ?cfg = 4" and c2: "hidden_size ?cfg = 4" by simp_all
  have sw: "shape ?W = [3 * 4 * (4 div 4), 4]" and ww: "wf_tensor ?W"
    by (simp_all add: ex_tensor_def wf_tensor_def)
  have p4: "(0::nat) < 4" by simp
  note th = rank_shards_partition [OF a b]
  note wp = th [THEN conjunct1, rule_format,
      OF conjI [OF c1 conjI [OF c2 conjI [OF p4 conjI [OF p4 conjI [OF sw ww]]]]]]
  have ev: "w_pack_shard ?cfg 2 1 ?W = Inr (ex_tensor [6, 4] ([8..<16] @ [24..<32] @ [40..<48]))"
    by (simp add: w_pack_shard_def view_def reshape_rows_def slice_dim_def Let_def ex_tensor_def
        upt_3)
  have rhs: "take (4 * (4 div 4 * 4)) (drop (1 * (4 * (4 div 4 * 4))) (data ?W)) = [16..<32]"
    by (simp add: ex_tensor_def)
  note hd = wp [THEN conjunct2, rule_format, OF k3, unfolded rhs]
  have m: "((0::nat) = 0 \<and> ''gate_proj'' = ''gate_proj'' \<and> str_contains ''gate_proj'' ?name) \<or>
      ((0::nat) = 1 \<and> ''gate_proj'' = ''up_proj'' \<and> \<not> str_contains ''gate_proj'' ?name \<and>
       str_contains ''up_proj'' ?name)"
    by simp
  have cg: "str_contains ''gate_proj'' ?name" by simp
  have k: "?sd (str_replace ''gate_proj'' ''gate_up_proj'' ?name) = Some ?P" by simp
  have sp: "shape ?P = [2 * (4 div 2), 1]" and wpp: "wf_tensor ?P"
    and sg: "shape ?G = [4, 1]" and wg: "wf_tensor ?G"
    by (simp_all add: ex_tensor_def wf_tensor_def)
  note gu = th [THEN conjunct2, THEN conjunct1, rule_format,
      where num = ex_plain_numerics and sd = ?sd and ordinal = 0 and weight_name = "''gate_proj''"
        and name = ?name and param = ?P and lw = ?G and ds = "[1]",
      OF conjI [OF m conjI [OF k conjI [OF sp conjI [OF wpp conjI [OF sg wg]]]]]]
  from gu [THEN conjunct1, rule_format, OF r2]
  have g1: "gate_up_loop ex_plain_numerics 1 ?sd ?name ?G [(0, ''gate_proj''), (1, ''up_proj'')] =
      Inr ([''model.layers.0.mlp.gate_up_proj.weight'' \<mapsto> ex_tensor [4, 1] [3, 4, 0, 0]], True)"
    by (simp add: ex_tensor_def ex_plain_numerics_def slice_dim_def values_as_def Let_def)
  have v: "values_as ex_plain_numerics (dtype ?P) ?G = [1, 2, 3, 4]"
    by (simp add: values_as_def ex_tensor_def)
  note gc = gu [THEN conjunct2, unfolded v]
  note u = th [THEN conjunct2, THEN conjunct2, THEN conjunct1]
  show ?thesis
    by (intro conjI) (rule a b k3 r2 c1 c2 sw ww ev hd cg k sp wpp sg wg g1 gc u)+
qed

text \<open>
  Claim C1.  Let the configuration have \<open>T > 0\<close> heads and hidden size \<open>H > 0\<close>, let the
  rank be below the world size, and let the loaded tensor have the \<open>3 * T * (H div T) * H\<close>
  elements of the view \<open>[3, T, H div T, H]\<close>.  Then the branch for \<open>W_pack\<close> returns a tensor
  of shape \<open>[3 * local_heads * head_dim, H]\<close> with \<open>local_heads = T div world_size\<close>, whose
  elements are, for each of the three projections in turn, the elements of the heads
  \<open>[rank * local_heads, (rank + 1) * local_heads)\<close> of the view; and this is the tensor
  that the entry hands to \<open>load_tensor_parallel_weights\<close> for storing.  In the scenario
  (4 heads, hidden size 32, world size 2, a tensor of shape \<open>[96, 32]\<close>, a head being 256
  elements) rank 0 gets a \<open>[48, 32]\<close> tensor of the heads 0 and 1 of each projection and
  rank 1 one of the heads 2 and 3; when the elements of the loaded tensor are distinct,
  the two have no element in common.
\<close>

theorem w_pack_entry_sharded:
  "(num_attention_heads cfg = T \<and> hidden_size cfg = H \<and> 0 < T \<and> 0 < ws \<and> 0 < H \<and>
    rank < ws \<and> prod_list (shape w1) = 3 * T * (H div T) * H \<longrightarrow>
      (\<exists>w2. w_pack_shard cfg ws rank w1 = Inr w2 \<and>
         shape w2 = [3 * (T div ws) * (H div T), H] \<and>
         data w2 =
           concat (map (\<lambda>k. take (T div ws * (H div T * H))
                               (drop ((k * T + rank * (T div ws)) * (H div T * H)) (data w1)))
                    [0, 1, 2]) \<and>
         (\<not> str_contains ''rotary_emb.inv_freq'' name \<and> str_contains ''W_pack'' name \<and>
          \<not> str_contains ''gate_proj'' name \<and> \<not> str_contains ''up_proj'' name \<and>
          \<not> str_contains ''embed_tokens'' name \<and> \<not> str_contains ''lm_head'' name \<and>
          convert_pyslice_to_tensor hlp w = Inr w1 \<and> sd name = Some param \<longrightarrow>
            load_entry num hlp cfg ws rank (sd, h) (name, w) =
              (case load_tensor_parallel_weights hlp param w2 name column_parallel_weights
                      row_parallel_weights rank of
                 Inl x \<Rightarrow> Inl (Raised x)
               | Inr param' \<Rightarrow> Inr (sd(name \<mapsto> param'), h))))) \<and>
   (num_attention_heads cfg' = 4 \<and> hidden_size cfg' = 32 \<and> shape w' = [96, 32] \<longrightarrow>
      w_pack_shard cfg' 2 0 w' =
        Inr (w'\<lparr>shape := [48, 32],
                data := take 512 (data w') @ take 512 (drop 1024 (data w')) @
                        take 512 (drop 2048 (data w'))\<rparr>) \<and>
      w_pack_shard cfg' 2 1 w' =
        Inr (w'\<lparr>shape := [48, 32],
                data := take 512 (drop 512 (data w')) @ take 512 (drop 1536 (data w')) @
                        take 512 (drop 2560 (data w'))\<rparr>) \<and>
      (distinct (data w') \<longrightarrow>
         set (take 512 (data w') @ take 512 (drop 1024 (data w')) @ take 512 (drop 2048 (data w'))) \<inter>
         set (take 512 (drop 512 (data w')) @ take 512 (drop 1536 (data w')) @
              take 512 (drop 2560 (data w'))) = {}))"
proof (intro conjI impI)
  assume g: "num_attention_heads cfg = T \<and> hidden_size cfg = H \<and> 0 < T \<and> 0 < ws \<and> 0 < H \<and>
    rank < ws \<and> prod_list (shape w1) = 3 * T * (H div T) * H"
  let ?w2 = "w1\<lparr>shape := [3 * (T div ws) * (H div T), H],
            data := concat (map (\<lambda>k. take (T div ws * (H div T * H))
                                       (drop ((k * T + rank * (T div ws)) * (H div T * H)) (data w1)))
                            [0, 1, 2])\<rparr>"
  from g have eq: "w_pack_shard cfg ws rank w1 = Inr ?w2"
    by (intro w_pack_shard_eq) simp_all
  have "load_entry num hlp cfg ws rank (sd, h) (name, w) =
              (case load_tensor_parallel_weights hlp param ?w2 name column_parallel_weights
                      row_parallel_weights rank of
                 Inl x \<Rightarrow> Inl (Raised x)
               | Inr param' \<Rightarrow> Inr (sd(name \<mapsto> param'), h))"
    if "\<not> str_contains ''rotary_emb.inv_freq'' name \<and> str_contains ''W_pack'' name \<and>
          \<not> str_contains ''gate_proj'' name \<and> \<not> str_contains ''up_proj'' name \<and>
          \<not> str_contains ''embed_tokens'' name \<and> \<not> str_contains ''lm_head'' name \<and>
          convert_pyslice_to_tensor hlp w = Inr w1 \<and> sd name = Some param"
    using that eq by (intro load_entry_w_pack) simp_all
  with eq show "\<exists>w2. w_pack_shard cfg ws rank w1 = Inr w2 \<and>
         shape w2 = [3 * (T div ws) * (H div T), H] \<and>
         data w2 =
           concat (map (\<lambda>k. take (T div ws * (H div T * H))
                               (drop ((k * T + rank * (T div ws)) * (H div T * H)) (data w1)))
                    [0, 1, 2]) \<and>
         (\<not> str_contains ''rotary_emb.inv_freq'' name \<and> str_contains ''W_pack'' name \<and>
          \<not> str_contains ''gate_proj'' name \<and> \<not> str_contains ''up_proj'' name \<and>
          \<not> str_contains ''embed_tokens'' name \<and> \<not> str_contains ''lm_head'' name \<and>
          convert_pyslice_to_tensor hlp w = Inr w1 \<and> sd name = Some param \<longrightarrow>
            load_entry num hlp cfg ws rank (sd, h) (name, w) =
              (case load_tensor_parallel_weights hlp param w2 name column_parallel_weights
                      row_parallel_weights rank of
                 Inl x \<Rightarrow> Inl (Raised x)
               | Inr param' \<Rightarrow> Inr (sd(name \<mapsto> param'), h)))"
    by (intro exI [of _ ?w2] conjI impI) simp_all
next
  assume s: "num_attention_heads cfg' = 4 \<and> hidden_size cfg' = 32 \<and> shape w' = [96, 32]"
  then have c: "num_attention_heads cfg' = 4" "hidden_size cfg' = 32"
    and p: "prod_list (shape w') = 3072" by simp_all
  show "w_pack_shard cfg' 2 0 w' =
        Inr (w'\<lparr>shape := [48, 32],
                data := take 512 (data w') @ take 512 (drop 1024 (data w')) @
                        take 512 (drop 2048 (data w'))\<rparr>)"
    using c p by (rule w_pack_scenario)
  show "w_pack_shard cfg' 2 1 w' =
        Inr (w'\<lparr>shape := [48, 32],
                data := take 512 (drop 512 (data w')) @ take 512 (drop 1536 (data w')) @
                        take 512 (drop 2560 (data w'))\<rparr>)"
    using c p by (rule w_pack_scenario)
next
  assume "distinct (data w')"
  then show "set (take 512 (data w') @ take 512 (drop 1024 (data w')) @ take 512 (drop 2048 (data w'))) \<inter>
         set (take 512 (drop 512 (data w')) @ take 512 (drop 1536 (data w')) @
              take 512 (drop 2560 (data w'))) = {}"
    by (rule three_blocks_disjoint)
qed

theorem w_pack_entry_sharded_witness:
  "num_attention_heads ex_config = 4 \<and> hidden_size ex_config = 32 \<and>
   shape (ex_tensor [96, 32] [0..<3072]) = [96, 32] \<and>
   distinct (data (ex_tensor [96, 32] [0..<3072])) \<and>
   w_pack_shard ex_config 2 0 (ex_tensor [96, 32] [0..<3072]) =
     Inr ((ex_tensor [96, 32] [0..<3072])
            \<lparr>shape := [48, 32],
             data := take 512 (data (ex_tensor [96, 32] [0..<3072])) @
                     take 512 (drop 1024 (data (ex_tensor [96, 32] [0..<3072]))) @
                     take 512 (drop 2048 (data (ex_tensor [96, 32] [0..<3072])))\<rparr>) \<and>
   w_pack_shard ex_config 2 1 (ex_tensor [96, 32] [0..<3072]) =
     Inr ((ex_tensor [96, 32] [0..<3072])
            \<lparr>shape := [48, 32],
             data := take 512 (drop 512 (data (ex_tensor [96, 32] [0..<3072]))) @
                     take 512 (drop 1536 (data (ex_tensor [96, 32] [0..<3072]))) @
                     take 512 (drop 2560 (data (ex_tensor [96, 32] [0..<3072])))\<rparr>) \<and>
   set (take 512 (data (ex_tensor [96, 32] [0..<3072])) @
        take 512 (drop 1024 (data (ex_tensor [96, 32] [0..<3072]))) @
        take 512 (drop 2048 (data (ex_tensor [96, 32] [0..<3072])))) \<inter>
   set (take 512 (drop 512 (data (ex_tensor [96, 32] [0..<3072]))) @
        take 512 (drop 1536 (data (ex_tensor [96, 32] [0..<3072]))) @
        take 512 (drop 2560 (data (ex_tensor [96, 32] [0..<3072])))) = {} \<and>
   (0::nat) < 2 \<and> (1::nat) < 2 \<and>
   prod_list (shape (ex_tensor [6, 2] [0, 1, 2, 3, 4, 5, 6, 7, 8, 9, 10, 11 :: nat])) =
     3 * 2 * (2 div 2) * 2 \<and>
   (\<exists>w2. w_pack_shard \<lparr>num_attention_heads = 2, hidden_size = 2\<rparr> 2 1
            (ex_tensor [6, 2] [0, 1, 2, 3, 4, 5, 6, 7, 8, 9, 10, 11 :: nat]) = Inr w2 \<and>
      shape w2 = [3, 2] \<and> data w2 = [2, 3, 6, 7, 10, 11] \<and>
      load_entry ex_plain_numerics ex_helpers \<lparr>num_attention_heads = 2, hidden_size = 2\<rparr> 2 1
        ([''model.layers.0.self_attn.W_pack.weight'' \<mapsto> ex_tensor [3, 2] [0, 0, 0, 0, 0, 0]], False)
        (''model.layers.0.self_attn.W_pack.weight'',
         ex_tensor [6, 2] [0, 1, 2, 3, 4, 5, 6, 7, 8, 9, 10, 11]) =
      Inr ([''model.layers.0.self_attn.W_pack.weight'' \<mapsto> ex_tensor [3, 2] [2, 3, 6, 7, 10, 11]],
           False))"
proof -
  let ?W = "ex_tensor [96, 32] [0..<3072]"
  let ?cfg = "\<lparr>num_attention_heads = 2, hidden_size = 2\<rparr>"
  let ?w1 = "ex_tensor [6, 2] [0, 1, 2, 3, 4, 5, 6, 7, 8, 9, 10, 11 :: nat]"
  let ?name = "''model.layers.0.self_attn.W_pack.weight''"
  let ?sd = "[?name \<mapsto> ex_tensor [3, 2] [0, 0, 0, 0, 0, 0 :: nat]]"
  have c: "num_attention_heads ex_config = 4" "hidden_size ex_config = 32"
    by (simp_all add: ex_config_def)
  have s: "shape ?W = [96, 32]" by (simp add: ex_tensor_def)
  have d: "distinct (data ?W)" by (simp add: ex_tensor_def)
  note th = w_pack_entry_sharded [where cfg' = ex_config and w' = ?W and cfg = ?cfg and T = 2
      and H = 2 and ws = 2 and rank = 1 and ?w1.0 = ?w1 and name = ?name and hlp = ex_helpers
      and w = ?w1 and sd = ?sd and param = "ex_tensor [3, 2] [0, 0, 0, 0, 0, 0]"
      and num = ex_plain_numerics and h = False]
  note sc = th [THEN conjunct2, rule_format, OF conjI [OF c(1) conjI [OF c(2) s]]]
  note r0 = sc [THEN conjunct1]
  note r1 = sc [THEN conjunct2, THEN conjunct1]
  note dj = sc [THEN conjunct2, THEN conjunct2, rule_format, OF d]
  have p: "(0::nat) < 2" and q: "(1::nat) < 2"
    and n: "prod_list (shape ?w1) = 3 * 2 * (2 div 2) * 2"
    by (simp_all add: ex_tensor_def)
  have g: "num_attention_heads ?cfg = 2 \<and> hidden_size ?cfg = 2 \<and> (0::nat) < 2 \<and> (0::nat) < 2 \<and>
      (0::nat) < 2 \<and> (1::nat) < 2 \<and> prod_list (shape ?w1) = 3 * 2 * (2 div 2) * 2"
    using n by simp
  from th [THEN conjunct1, rule_format, OF g]
  obtain w2 where w2: "w_pack_shard ?cfg 2 1 ?w1 = Inr w2"
    and sh: "shape w2 = [3 * (2 div 2) * (2 div 2), 2]"
    and da: "data w2 =
           concat (map (\<lambda>k. take (2 div 2 * (2 div 2 * 2))
                               (drop ((k * 2 + 1 * (2 div 2)) * (2 div 2 * 2)) (data ?w1)))
                    [0, 1, 2])"
    and le: "\<not> str_contains ''rotary_emb.inv_freq'' ?name \<and> str_contains ''W_pack'' ?name \<and>
          \<not> str_contains ''gate_proj'' ?name \<and> \<not> str_contains ''up_proj'' ?name \<and>
          \<not> str_contains ''embed_tokens'' ?name \<and> \<not> str_contains ''lm_head'' ?name \<and>
          convert_pyslice_to_tensor ex_helpers ?w1 = Inr ?w1 \<and>
          ?sd ?name = Some (ex_tensor [3, 2] [0, 0, 0, 0, 0, 0]) \<longrightarrow>
            load_entry ex_plain_numerics ex_helpers ?cfg 2 1 (?sd, False) (?name, ?w1) =
              (case load_tensor_parallel_weights ex_helpers (ex_tensor [3, 2] [0, 0, 0, 0, 0, 0]) w2 ?name
                      column_parallel_weights row_parallel_weights 1 of
                 Inl x \<Rightarrow> Inl (Raised x)
               | Inr param' \<Rightarrow> Inr (?sd(?name \<mapsto> param'), False))"
    by blast
  from sh have sh': "shape w2 = [3, 2]" by simp
  from da have da': "data w2 = [2, 3, 6, 7, 10, 11]" by (simp add: ex_tensor_def)
  have pre: "\<not> str_contains ''rotary_emb.inv_freq'' ?name \<and> str_contains ''W_pack'' ?name \<and>
          \<not> str_contains ''gate_proj'' ?name \<and> \<not> str_contains ''up_proj'' ?name \<and>
          \<not> str_contains ''embed_tokens'' ?name \<and> \<not> str_contains ''lm_head'' ?name \<and>
          convert_pyslice_to_tensor ex_helpers ?w1 = Inr ?w1 \<and>
          ?sd ?name = Some (ex_tensor [3, 2] [0, 0, 0, 0, 0, 0])"
    by (simp add: ex_helpers_def)
  from le [rule_format, OF pre] da'
  have "load_entry ex_plain_numerics ex_helpers ?cfg 2 1 (?sd, False) (?name, ?w1) =
      Inr ([?name \<mapsto> ex_tensor [3, 2] [2, 3, 6, 7, 10, 11]], False)"
    by (simp add: ex_helpers_def ex_tensor_def)
  with w2 sh' da'
  have e: "\<exists>w2. w_pack_shard ?cfg 2 1 ?w1 = Inr w2 \<and> shape w2 = [3, 2] \<and>
      data w2 = [2, 3, 6, 7, 10, 11] \<and>
      load_entry ex_plain_numerics ex_helpers ?cfg 2 1 (?sd, False) (?name, ?w1) =
        Inr ([?name \<mapsto> ex_tensor [3, 2] [2, 3, 6, 7, 10, 11]], False)"
    by blast
  show ?thesis
    by (intro conjI) (rule c s d r0 r1 dj p q n e)+
qed

text \<open>
  Claim C2, as the code has it.  For an entry whose name contains \<open>gate_proj\<close> (ordinal 0),
  or \<open>up_proj\<close> and not \<open>gate_proj\<close> (ordinal 1), the destination is the parameter stored
  under the name with \<open>gate_up_proj\<close> in its place, and the shard size is half the output
  size of that destination; the world size does not enter.  The destination rows
  \<open>[shard_size * ordinal, shard_size * (ordinal + 1))\<close> are a slice of \<open>shard_size\<close> rows; the
  source is the slice \<open>[shard_size * rank, shard_size * (rank + 1))\<close> of the loaded tensor,
  which has \<open>shard_size\<close> rows when the loaded tensor reaches that far.  If the two shapes
  differ the iteration fails on its assertion; if they agree, exactly those rows of the
  destination are overwritten with the source and the rest of the destination and of
  the store is kept.  Nothing else is done for the entry.
\<close>

theorem gate_up_entry_copy:
  assumes "(ordinal = 0 \<and> weight_name = ''gate_proj'' \<and> str_contains ''gate_proj'' name) \<or>
           (ordinal = 1 \<and> weight_name = ''up_proj'' \<and> \<not> str_contains ''gate_proj'' name \<and>
            str_contains ''up_proj'' name)"
    and "sd (str_replace weight_name ''gate_up_proj'' name) = Some param"
    and "shape param = d0 # ds" and "shape lw \<noteq> []"
    and "shard_size = d0 div 2"
    and "src = slice_dim 0 (shard_size * rank) (shard_size * (rank + 1)) lw"
    and "dst = slice_dim 0 (shard_size * ordinal) (shard_size * (ordinal + 1)) param"
  shows "shape dst = shard_size # ds \<and>
         data dst = take (shard_size * prod_list ds)
                      (drop (shard_size * ordinal * prod_list ds) (data param)) \<and>
         (shard_size * (rank + 1) \<le> hd (shape lw) \<longrightarrow>
            shape src = shard_size # tl (shape lw) \<and>
            data src = take (shard_size * prod_list (tl (shape lw)))
                         (drop (shard_size * rank * prod_list (tl (shape lw))) (data lw))) \<and>
         (shape src \<noteq> shape dst \<longrightarrow>
            gate_up_loop num rank sd name lw [(0, ''gate_proj''), (1, ''up_proj'')] =
              Inl (AssertionError [])) \<and>
         (shape src = shape dst \<longrightarrow>
            gate_up_loop num rank sd name lw [(0, ''gate_proj''), (1, ''up_proj'')] =
              Inr (sd(str_replace weight_name ''gate_up_proj'' name \<mapsto>
                     param\<lparr>data := take (shard_size * ordinal * prod_list ds) (data param) @
                                     values_as num (dtype param) src @
                                     drop (shard_size * (ordinal + 1) * prod_list ds) (data param)\<rparr>),
                   True)) \<and>
         (\<not> str_contains ''rotary_emb.inv_freq'' name \<and> \<not> str_contains ''W_pack'' name \<and>
          convert_pyslice_to_tensor hlp w = Inr lw \<longrightarrow>
            load_entry num hlp cfg ws rank (sd, h) (name, w) =
              (case gate_up_loop num rank sd name lw [(0, ''gate_proj''), (1, ''up_proj'')] of
                 Inl e \<Rightarrow> Inl e
               | Inr (sd', b) \<Rightarrow> Inr (sd', h)))"
proof (intro conjI impI)
  from assms(1) have ord: "ordinal \<le> 1" by auto
  have lo: "shard_size * ordinal \<le> shard_size * (ordinal + 1)" by simp
  have hi: "shard_size * (ordinal + 1) \<le> d0"
    unfolding assms(5) using ord by (rule half_slot_bound)
  have d: "shard_size * (ordinal + 1) - shard_size * ordinal = shard_size" by simp
  have dst: "dst = param\<lparr>shape := shard_size # ds,
      data := take (shard_size * prod_list ds) (drop (shard_size * ordinal * prod_list ds) (data param))\<rparr>"
    unfolding assms(7) using slice_dim_0_in_range [OF assms(3) lo hi] unfolding d .
  show "shape dst = shard_size # ds" unfolding dst by simp
  show "data dst = take (shard_size * prod_list ds)
                      (drop (shard_size * ordinal * prod_list ds) (data param))"
    unfolding dst by simp
  note loop = gate_up_loop_match [where sd = sd and num = num and rank = rank, OF assms(1,2,3,4),
      folded assms(5), folded assms(6,7)]
  {
    assume "shape src \<noteq> shape dst"
    then have "shape dst \<noteq> shape src" by simp
    then show "gate_up_loop num rank sd name lw [(0, ''gate_proj''), (1, ''up_proj'')] =
              Inl (AssertionError [])"
      unfolding loop by simp
  }
  {
    assume "shape src = shape dst"
    then have e: "shape dst = shape src" by simp
    have "copy_rows num param (shard_size * ordinal) (shard_size * (ordinal + 1)) src =
        param\<lparr>data := take (shard_size * ordinal * prod_list ds) (data param) @
                                     values_as num (dtype param) src @
                                     drop (shard_size * (ordinal + 1) * prod_list ds) (data param)\<rparr>"
      using assms(3) lo hi by (rule copy_rows_in_range)
    then show "gate_up_loop num rank sd name lw [(0, ''gate_proj''), (1, ''up_proj'')] =
              Inr (sd(str_replace weight_name ''gate_up_proj'' name \<mapsto>
                     param\<lparr>data := take (shard_size * ordinal * prod_list ds) (data param) @
                                     values_as num (dtype param) src @
                                     drop (shard_size * (ordinal + 1) * prod_list ds) (data param)\<rparr>),
                   True)"
      unfolding loop using e by simp
  }
  {
    assume r: "shard_size * (rank + 1) \<le> hd (shape lw)"
    from assms(4) have sh: "shape lw = hd (shape lw) # tl (shape lw)" by simp
    have lo': "shard_size * rank \<le> shard_size * (rank + 1)" by simp
    have d': "shard_size * (rank + 1) - shard_size * rank = shard_size" by simp
    have src: "src = lw\<lparr>shape := shard_size # tl (shape lw),
        data := take (shard_size * prod_list (tl (shape lw)))
                  (drop (shard_size * rank * prod_list (tl (shape lw))) (data lw))\<rparr>"
      unfolding assms(6) using slice_dim_0_in_range [OF sh lo' r] unfolding d' .
    show "shape src = shard_size # tl (shape lw)" unfolding src by simp
    show "data src = take (shard_size * prod_list (tl (shape lw)))
                         (drop (shard_size * rank * prod_list (tl (shape lw))) (data lw))"
      unfolding src by simp
  }
  {
    assume a: "\<not> str_contains ''rotary_emb.inv_freq'' name \<and> \<not> str_contains ''W_pack'' name \<and>
          convert_pyslice_to_tensor hlp w = Inr lw"
    from assms(1) have "str_contains ''gate_proj'' name \<or> str_contains ''up_proj'' name" by auto
    with a show "load_entry num hlp cfg ws rank (sd, h) (name, w) =
              (case gate_up_loop num rank sd name lw [(0, ''gate_proj''), (1, ''up_proj'')] of
                 Inl e \<Rightarrow> Inl e
               | Inr (sd', b) \<Rightarrow> Inr (sd', h))"
      by (intro load_entry_gate_up) simp_all
  }
qed

theorem gate_up_entry_copy_witness:
  "((0::nat) = 0 \<and> ''gate_proj'' = ''gate_proj'' \<and>
      str_contains ''gate_proj'' ''model.layers.0.mlp.gate_proj.weight'') \<and>
   [''model.layers.0.mlp.gate_up_proj.weight'' \<mapsto> ex_tensor [4, 1] [0, 0, 0, 0 :: nat]]
     (str_replace ''gate_proj'' ''gate_up_proj'' ''model.layers.0.mlp.gate_proj.weight'') =
     Some (ex_tensor [4, 1] [0, 0, 0, 0]) \<and>
   shape (ex_tensor [4, 1] [0, 0, 0, 0 :: nat]) = [4, 1] \<and>
   shape (ex_tensor [4, 1] [1, 2, 3, 4 :: nat]) \<noteq> [] \<and>
   shape (slice_dim 0 (4 div 2 * 1) (4 div 2 * (1 + 1)) (ex_tensor [4, 1] [1, 2, 3, 4 :: nat])) =
   shape (slice_dim 0 (4 div 2 * 0) (4 div 2 * (0 + 1)) (ex_tensor [4, 1] [0, 0, 0, 0 :: nat])) \<and>
   gate_up_loop ex_plain_numerics 1
     [''model.layers.0.mlp.gate_up_proj.weight'' \<mapsto> ex_tensor [4, 1] [0, 0, 0, 0]]
     ''model.layers.0.mlp.gate_proj.weight'' (ex_tensor [4, 1] [1, 2, 3, 4])
     [(0, ''gate_proj''), (1, ''up_proj'')] =
   Inr ([''model.layers.0.mlp.gate_up_proj.weight'' \<mapsto> ex_tensor [4, 1] [3, 4, 0, 0]], True)"
proof -
  let ?P = "ex_tensor [4, 1] [0, 0, 0, 0 :: nat]"
  let ?G = "ex_tensor [4, 1] [1, 2, 3, 4 :: nat]"
  let ?name = "''model.layers.0.mlp.gate_proj.weight''"
  let ?sd = "[''model.layers.0.mlp.gate_up_proj.weight'' \<mapsto> ?P]"
  let ?src = "slice_dim 0 (4 div 2 * 1) (4 div 2 * (1 + 1)) ?G"
  let ?dst = "slice_dim 0 (4 div 2 * 0) (4 div 2 * (0 + 1)) ?P"
  have m0: "(0::nat) = 0 \<and> ''gate_proj'' = ''gate_proj'' \<and> str_contains ''gate_proj'' ?name"
    by simp
  then have m: "((0::nat) = 0 \<and> ''gate_proj'' = ''gate_proj'' \<and> str_contains ''gate_proj'' ?name) \<or>
      ((0::nat) = 1 \<and> ''gate_proj'' = ''up_proj'' \<and> \<not> str_contains ''gate_proj'' ?name \<and>
       str_contains ''up_proj'' ?name)"
    by (rule disjI1)
  have k: "?sd (str_replace ''gate_proj'' ''gate_up_proj'' ?name) = Some ?P" by simp
  have sp: "shape ?P = [4, 1]" and sg: "shape ?G \<noteq> []" by (simp_all add: ex_tensor_def)
  have eq: "shape ?src = shape ?dst" by (simp add: ex_tensor_def slice_dim_def Let_def)
  note th = gate_up_entry_copy [where sd = ?sd and num = ex_plain_numerics and rank = 1
      and shard_size = "4 div 2" and src = ?src and dst = ?dst, OF m k sp sg refl refl refl]
  from th [THEN conjunct2, THEN conjunct2, THEN conjunct2, THEN conjunct2, THEN conjunct1,
      rule_format, OF eq]
  have r: "gate_up_loop ex_plain_numerics 1 ?sd ?name ?G [(0, ''gate_proj''), (1, ''up_proj'')] =
      Inr ([''model.layers.0.mlp.gate_up_proj.weight'' \<mapsto> ex_tensor [4, 1] [3, 4, 0, 0]], True)"
    by (simp add: ex_tensor_def ex_plain_numerics_def slice_dim_def values_as_def Let_def)
  from m0 k sp sg eq r show ?thesis by blast
qed

text \<open>
  With world size 2 and rank 1, a destination of four rows gets the rows \<open>[2, 4)\<close> of the
  loaded tensor in its rows \<open>[0, 2)\<close>: the shard size is \<open>4 div 2 = 2\<close>.  The shard size
  \<open>4 div 2 div 2 = 1\<close> of the specification's wording would move one row only.
\<close>

theorem gate_up_entry_copy_counterexample:
  "gate_up_loop ex_plain_numerics 1
     [''model.layers.0.mlp.gate_up_proj.weight'' \<mapsto> ex_tensor [4, 1] [0, 0, 0, 0]]
     ''model.layers.0.mlp.gate_proj.weight'' (ex_tensor [4, 1] [1, 2, 3, 4])
     [(0, ''gate_proj''), (1, ''up_proj'')] =
   Inr ([''model.layers.0.mlp.gate_up_proj.weight'' \<mapsto> ex_tensor [4, 1] [3, 4, 0, 0]], True) \<and>
   gate_up_rows_as_claimed ex_plain_numerics 2 1 0
     (ex_tensor [4, 1] [0, 0, 0, 0]) (ex_tensor [4, 1] [1, 2, 3, 4]) =
   ex_tensor [4, 1] [2, 0, 0, 0] \<and>
   gate_up_loop ex_plain_numerics 1
     [''model.layers.0.mlp.gate_up_proj.weight'' \<mapsto> ex_tensor [4, 1] [0, 0, 0, 0]]
     ''model.layers.0.mlp.gate_proj.weight'' (ex_tensor [4, 1] [1, 2, 3, 4])
     [(0, ''gate_proj''), (1, ''up_proj'')] \<noteq>
   Inr ([''model.layers.0.mlp.gate_up_proj.weight'' \<mapsto>
          gate_up_rows_as_claimed ex_plain_numerics 2 1 0
            (ex_tensor [4, 1] [0, 0, 0, 0]) (ex_tensor [4, 1] [1, 2, 3, 4])], True)"
proof -
  have a: "gate_up_loop ex_plain_numerics 1
     [''model.layers.0.mlp.gate_up_proj.weight'' \<mapsto> ex_tensor [4, 1] [0, 0, 0, 0]]
     ''model.layers.0.mlp.gate_proj.weight'' (ex_tensor [4, 1] [1, 2, 3, 4])
     [(0, ''gate_proj''), (1, ''up_proj'')] =
   Inr ([''model.layers.0.mlp.gate_up_proj.weight'' \<mapsto> ex_tensor [4, 1] [3, 4, 0, 0]], True)"
    by (simp add: ex_tensor_def ex_plain_numerics_def getitem_slice_def slice_dim_def copy_rows_def
        values_as_def Let_def)
  have b: "gate_up_rows_as_claimed ex_plain_numerics 2 1 0
     (ex_tensor [4, 1] [0, 0, 0, 0]) (ex_tensor [4, 1] [1, 2, 3, 4]) =
     ex_tensor [4, 1] [2, 0, 0, 0]"
    by (simp add: gate_up_rows_as_claimed_def ex_tensor_def ex_plain_numerics_def slice_dim_def
        copy_rows_def values_as_def Let_def)
  have c: "[''model.layers.0.mlp.gate_up_proj.weight'' \<mapsto> ex_tensor [4, 1] [3, 4, 0, 0 :: nat]] \<noteq>
      [''model.layers.0.mlp.gate_up_proj.weight'' \<mapsto> ex_tensor [4, 1] [2, 0, 0, 0]]"
  proof
    assume "[''model.layers.0.mlp.gate_up_proj.weight'' \<mapsto> ex_tensor [4, 1] [3, 4, 0, 0 :: nat]] =
      [''model.layers.0.mlp.gate_up_proj.weight'' \<mapsto> ex_tensor [4, 1] [2, 0, 0, 0]]"
    then have "ex_tensor [4, 1] [3, 4, 0, 0 :: nat] = ex_tensor [4, 1] [2, 0, 0, 0]"
      by (rule map_upd_eqD1)
    then show False by (simp add: ex_tensor_def)
  qed
  show ?thesis unfolding a b using c by simp
qed

text \<open>
  Claim C6, as the code has it.  With intermediate size 16 and world size 2 the
  destination of a rank is its own parameter of shape \<open>[16, hidden]\<close>, and the shard size is
  8.  For rank 0 and for rank 1 alike, the gate half of the rank (rows
  \<open>[8 * rank, 8 * rank + 8)\<close> of the gate tensor) is written to the rows \<open>[0, 8)\<close> of the
  destination, and its up half (the same rows of the up tensor) to the rows \<open>[8, 16)\<close>.
\<close>

theorem gate_up_scenario:
  assumes "shape param = [16, hidden]" and "wf_tensor param"
    and "shape gate = [16, hidden]" and "shape up = [16, hidden]"
    and "str_contains ''gate_proj'' gate_name"
    and "sd (str_replace ''gate_proj'' ''gate_up_proj'' gate_name) = Some param"
    and "\<not> str_contains ''gate_proj'' up_name" and "str_contains ''up_proj'' up_name"
    and "sd (str_replace ''up_proj'' ''gate_up_proj'' up_name) = Some param"
    and "rank < 2"
  shows "gate_up_loop num rank sd gate_name gate [(0, ''gate_proj''), (1, ''up_proj'')] =
           Inr (sd(str_replace ''gate_proj'' ''gate_up_proj'' gate_name \<mapsto>
                  param\<lparr>data := values_as num (dtype param)
                                    (slice_dim 0 (8 * rank) (8 * (rank + 1)) gate) @
                                  drop (8 * hidden) (data param)\<rparr>),
                True) \<and>
         data (slice_dim 0 (8 * rank) (8 * (rank + 1)) gate) =
           take (8 * hidden) (drop (8 * rank * hidden) (data gate)) \<and>
         gate_up_loop num rank sd up_name up [(0, ''gate_proj''), (1, ''up_proj'')] =
           Inr (sd(str_replace ''up_proj'' ''gate_up_proj'' up_name \<mapsto>
                  param\<lparr>data := take (8 * hidden) (data param) @
                                  values_as num (dtype param)
                                    (slice_dim 0 (8 * rank) (8 * (rank + 1)) up)\<rparr>),
                True) \<and>
         data (slice_dim 0 (8 * rank) (8 * (rank + 1)) up) =
           take (8 * hidden) (drop (8 * rank * hidden) (data up))"
proof -
  from assms(10) have hi: "8 * (rank + 1) \<le> (16::nat)" by simp
  have lo: "8 * rank \<le> 8 * (rank + 1)" by simp
  have d: "8 * (rank + 1) - 8 * rank = (8::nat)" by simp
  have src: "slice_dim 0 (8 * rank) (8 * (rank + 1)) t =
      t\<lparr>shape := [8, hidden], data := take (8 * hidden) (drop (8 * rank * hidden) (data t))\<rparr>"
    if "shape t = [16, hidden]" for t :: "'a tensor"
    using slice_dim_0_in_range [OF that lo hi] unfolding d by simp
  have dst: "shape (slice_dim 0 (8 * ordinal) (8 * (ordinal + 1)) param) = [8, hidden]"
    if "ordinal \<le> 1" for ordinal
  proof -
    from that have h: "8 * (ordinal + 1) \<le> (16::nat)" by simp
    have l: "8 * ordinal \<le> 8 * (ordinal + 1)" by simp
    from slice_dim_0_in_range [OF assms(1) l h] show ?thesis by simp
  qed
  from assms(1,2) have len: "length (data param) = 16 * hidden" by (simp add: wf_tensor_def)
  have g: "gate_up_loop num rank sd gate_name gate [(0, ''gate_proj''), (1, ''up_proj'')] =
      Inr (sd(str_replace ''gate_proj'' ''gate_up_proj'' gate_name \<mapsto>
             copy_rows num param (16 div 2 * 0) (16 div 2 * (0 + 1))
               (slice_dim 0 (16 div 2 * rank) (16 div 2 * (rank + 1)) gate)), True)"
  proof -
    have "shape (slice_dim 0 (8 * 0) (8 * (0 + 1)) param) =
        shape (slice_dim 0 (8 * rank) (8 * (rank + 1)) gate)"
      using dst [of 0] unfolding src [OF assms(3)] by simp
    then show ?thesis
      using gate_up_loop_match [where sd = sd and num = num and rank = rank and stride_id = 0
          and weight_name = "''gate_proj''" and name = gate_name and lw = gate, OF _ assms(6) assms(1)]
        assms(3,5)
      by simp
  qed
  have u: "gate_up_loop num rank sd up_name up [(0, ''gate_proj''), (1, ''up_proj'')] =
      Inr (sd(str_replace ''up_proj'' ''gate_up_proj'' up_name \<mapsto>
             copy_rows num param (16 div 2 * 1) (16 div 2 * (1 + 1))
               (slice_dim 0 (16 div 2 * rank) (16 div 2 * (rank + 1)) up)), True)"
  proof -
    have "shape (slice_dim 0 (8 * 1) (8 * (1 + 1)) param) =
        shape (slice_dim 0 (8 * rank) (8 * (rank + 1)) up)"
      using dst [of 1] unfolding src [OF assms(4)] by simp
    then show ?thesis
      using gate_up_loop_match [where sd = sd and num = num and rank = rank and stride_id = 1
          and weight_name = "''up_proj''" and name = up_name and lw = up, OF _ assms(9) assms(1)]
        assms(4,7,8)
      by simp
  qed
  have cg: "copy_rows num param (16 div 2 * 0) (16 div 2 * (0 + 1)) s =
      param\<lparr>data := values_as num (dtype param) s @ drop (8 * hidden) (data param)\<rparr>" for s
    using copy_rows_in_range [OF assms(1), of "16 div 2 * 0" "16 div 2 * (0 + 1)" num s] by simp
  have cu: "copy_rows num param (16 div 2 * 1) (16 div 2 * (1 + 1)) s =
      param\<lparr>data := take (8 * hidden) (data param) @ values_as num (dtype param) s\<rparr>" for s
    using copy_rows_in_range [OF assms(1), of "16 div 2 * 1" "16 div 2 * (1 + 1)" num s] len by simp
  have e: "16 div 2 * rank = 8 * rank" "16 div 2 * (rank + 1) = 8 * (rank + 1)" by simp_all
  show ?thesis
    using g u unfolding cg cu e src [OF assms(3)] src [OF assms(4)] by simp
qed

theorem gate_up_scenario_witness:
  "shape (ex_tensor [16, 1] (replicate 16 (0::nat))) = [16, 1] \<and>
   wf_tensor (ex_tensor [16, 1] (replicate 16 (0::nat))) \<and>
   shape ex_gate = [16, 1] \<and> shape ex_up = [16, 1] \<and>
   str_contains ''gate_proj'' ''model.layers.0.mlp.gate_proj.weight'' \<and>
   \<not> str_contains ''gate_proj'' ''model.layers.0.mlp.up_proj.weight'' \<and>
   str_contains ''up_proj'' ''model.layers.0.mlp.up_proj.weight'' \<and>
   (1::nat) < 2 \<and>
   gate_up_loop ex_plain_numerics 1
     [''model.layers.0.mlp.gate_up_proj.weight'' \<mapsto> ex_tensor [16, 1] (replicate 16 0)]
     ''model.layers.0.mlp.gate_proj.weight'' ex_gate [(0, ''gate_proj''), (1, ''up_proj'')] =
   Inr ([''model.layers.0.mlp.gate_up_proj.weight'' \<mapsto>
          ex_tensor [16, 1] ([9, 10, 11, 12, 13, 14, 15, 16] @ replicate 8 0)], True) \<and>
   gate_up_loop ex_plain_numerics 1
     [''model.layers.0.mlp.gate_up_proj.weight'' \<mapsto> ex_tensor [16, 1] (replicate 16 0)]
     ''model.layers.0.mlp.up_proj.weight'' ex_up [(0, ''gate_proj''), (1, ''up_proj'')] =
   Inr ([''model.layers.0.mlp.gate_up_proj.weight'' \<mapsto>
          ex_tensor [16, 1] (replicate 8 0 @ [109, 110, 111, 112, 113, 114, 115, 116])], True)"
proof -
  let ?P = "ex_tensor [16, 1] (replicate 16 (0::nat))"
  let ?gn = "''model.layers.0.mlp.gate_proj.weight''"
  let ?un = "''model.layers.0.mlp.up_proj.weight''"
  let ?sd = "[''model.layers.0.mlp.gate_up_proj.weight'' \<mapsto> ?P]"
  have sp: "shape ?P = [16, 1]" and wp: "wf_tensor ?P"
    by (simp_all add: ex_tensor_def wf_tensor_def)
  have sg: "shape ex_gate = [16, 1]" and su: "shape ex_up = [16, 1]"
    by (simp_all add: ex_gate_def ex_up_def ex_tensor_def)
  have cg: "str_contains ''gate_proj'' ?gn" and nu: "\<not> str_contains ''gate_proj'' ?un"
    and cu: "str_contains ''up_proj'' ?un"
    by simp_all
  have kg: "?sd (str_replace ''gate_proj'' ''gate_up_proj'' ?gn) = Some ?P"
    and ku: "?sd (str_replace ''up_proj'' ''gate_up_proj'' ?un) = Some ?P"
    by simp_all
  have r: "(1::nat) < 2" by simp
  note th = gate_up_scenario [where sd = ?sd and num = ex_plain_numerics, OF sp wp sg su cg kg nu cu ku r]
  from th [THEN conjunct1]
  have g: "gate_up_loop ex_plain_numerics 1 ?sd ?gn ex_gate [(0, ''gate_proj''), (1, ''up_proj'')] =
      Inr ([''model.layers.0.mlp.gate_up_proj.weight'' \<mapsto>
          ex_tensor [16, 1] ([9, 10, 11, 12, 13, 14, 15, 16] @ replicate 8 0)], True)"
    by (simp add: ex_gate_def ex_tensor_def ex_plain_numerics_def slice_dim_def values_as_def Let_def)
  from th [THEN conjunct2, THEN conjunct2, THEN conjunct1]
  have u: "gate_up_loop ex_plain_numerics 1 ?sd ?un ex_up [(0, ''gate_proj''), (1, ''up_proj'')] =
      Inr ([''model.layers.0.mlp.gate_up_proj.weight'' \<mapsto>
          ex_tensor [16, 1] (replicate 8 0 @ [109, 110, 111, 112, 113, 114, 115, 116])], True)"
    by (simp add: ex_up_def ex_tensor_def ex_plain_numerics_def slice_dim_def values_as_def Let_def)
  from sp wp sg su cg nu cu r g u show ?thesis by blast
qed

text \<open>
  With a destination of shape \<open>[32, 1]\<close> the shard size is 16: rank 0 writes all sixteen gate
  rows into the rows \<open>[0, 16)\<close> and rank 1 fails on the shape assertion.  With the
  destination of shape \<open>[16, 1]\<close> that each rank has, the gate half of rank 1 goes to the
  rows \<open>[0, 8)\<close> and the up half of rank 0 to the rows \<open>[8, 16)\<close>.
\<close>

theorem gate_up_scenario_counterexample:
  "gate_up_loop ex_plain_numerics 0
     [''model.layers.0.mlp.gate_up_proj.weight'' \<mapsto> ex_tensor [32, 1] (replicate 32 0)]
     ''model.layers.0.mlp.gate_proj.weight'' ex_gate [(0, ''gate_proj''), (1, ''up_proj'')] =
   Inr ([''model.layers.0.mlp.gate_up_proj.weight'' \<mapsto>
          ex_tensor [32, 1]
            ([1, 2, 3, 4, 5, 6, 7, 8, 9, 10, 11, 12, 13, 14, 15, 16] @ replicate 16 0)], True) \<and>
   gate_up_loop ex_plain_numerics 1
     [''model.layers.0.mlp.gate_up_proj.weight'' \<mapsto> ex_tensor [32, 1] (replicate 32 0)]
     ''model.layers.0.mlp.gate_proj.weight'' ex_gate [(0, ''gate_proj''), (1, ''up_proj'')] =
   Inl (AssertionError []) \<and>
   gate_up_loop ex_plain_numerics 1
     [''model.layers.0.mlp.gate_up_proj.weight'' \<mapsto> ex_tensor [16, 1] (replicate 16 0)]
     ''model.layers.0.mlp.gate_proj.weight'' ex_gate [(0, ''gate_proj''), (1, ''up_proj'')] =
   Inr ([''model.layers.0.mlp.gate_up_proj.weight'' \<mapsto>
          ex_tensor [16, 1] ([9, 10, 11, 12, 13, 14, 15, 16] @ replicate 8 0)], True) \<and>
   gate_up_loop ex_plain_numerics 0
     [''model.layers.0.mlp.gate_up_proj.weight'' \<mapsto> ex_tensor [16, 1] (replicate 16 0)]
     ''model.layers.0.mlp.up_proj.weight'' ex_up [(0, ''gate_proj''), (1, ''up_proj'')] =
   Inr ([''model.layers.0.mlp.gate_up_proj.weight'' \<mapsto>
          ex_tensor [16, 1]
            (replicate 8 0 @ [101, 102, 103, 104, 105, 106, 107, 108])], True)"
  by (simp add: ex_gate_def ex_up_def ex_tensor_def ex_plain_numerics_def getitem_slice_def
      slice_dim_def copy_rows_def values_as_def Let_def)

text \<open>
  Claim C5, as the code has it.  For an entry named \<open>lm_head.weight\<close> whose tensor has at
  least two dimensions, the loader applies \<open>torch.nn.functional.normalize\<close> with its
  default arguments (the L2 norm along dimension 1, the norm clamped below by \<open>1e-12\<close>) to
  the whole tensor, and the normalised tensor, of the shape, element type and device of
  the loaded one, is what it hands to \<open>load_padded_tensor_parallel_vocab\<close>; the flag
  \<open>has_norm_head\<close> is set.  When the tensor is of element type float16 and on the CPU, the
  normalisation is computed in single precision on the elements cast to it, and the result
  is cast back to float16.  In every other case (another element type, or float16 on
  another device) it is computed in the element type of the tensor.
\<close>

theorem lm_head_normalized_before_sharding:
  assumes "convert_pyslice_to_tensor hlp w = Inr w1" and "sd ''lm_head.weight'' = Some param"
    and "2 \<le> length (shape w1)"
  shows "(dtype w1 = Float16 \<and> device w1 = CPU \<longrightarrow>
            normalize_lm_head num w1 =
              Inr (w1\<lparr>data := map (cast num Float16)
                                 (l2_normalize num Float32 (shape w1)
                                    (map (cast num Float32) (data w1)))\<rparr>)) \<and>
         (\<not> (dtype w1 = Float16 \<and> device w1 = CPU) \<longrightarrow>
            normalize_lm_head num w1 =
              Inr (w1\<lparr>data := l2_normalize num (dtype w1) (shape w1) (data w1)\<rparr>)) \<and>
         (\<exists>w3. normalize_lm_head num w1 = Inr w3 \<and>
            shape w3 = shape w1 \<and> dtype w3 = dtype w1 \<and> device w3 = device w1 \<and>
            load_entry num hlp cfg ws rank (sd, h) (''lm_head.weight'', w) =
              (case load_padded_tensor_parallel_vocab hlp param w3 rank of
                 Inl x \<Rightarrow> Inl (Raised x)
               | Inr param' \<Rightarrow> Inr (sd(''lm_head.weight'' \<mapsto> param'), True)))"
proof (intro conjI impI)
  assume "dtype w1 = Float16 \<and> device w1 = CPU"
  then show "normalize_lm_head num w1 =
              Inr (w1\<lparr>data := map (cast num Float16)
                                 (l2_normalize num Float32 (shape w1)
                                    (map (cast num Float32) (data w1)))\<rparr>)"
    using assms(3) by (intro normalize_lm_head_half_cpu) simp_all
next
  assume "\<not> (dtype w1 = Float16 \<and> device w1 = CPU)"
  then show "normalize_lm_head num w1 =
              Inr (w1\<lparr>data := l2_normalize num (dtype w1) (shape w1) (data w1)\<rparr>)"
    using assms(3) by (rule normalize_lm_head_other)
next
  obtain w3 where w3: "normalize_lm_head num w1 = Inr w3"
    and same: "shape w3 = shape w1" "dtype w3 = dtype w1" "device w3 = device w1"
  proof (cases "dtype w1 = Float16 \<and> device w1 = CPU")
    case True
    then have "normalize_lm_head num w1 =
        Inr (w1\<lparr>data := map (cast num Float16)
               (l2_normalize num Float32 (shape w1) (map (cast num Float32) (data w1)))\<rparr>)"
      using assms(3) by (intro normalize_lm_head_half_cpu) simp_all
    then show ?thesis by (rule that) simp_all
  next
    case False
    then have "normalize_lm_head num w1 =
        Inr (w1\<lparr>data := l2_normalize num (dtype w1) (shape w1) (data w1)\<rparr>)"
      using assms(3) by (rule normalize_lm_head_other)
    then show ?thesis by (rule that) simp_all
  qed
  from load_entry_lm_head [where sd = sd and hlp = hlp and num = num, OF assms(1,2) w3] w3 same
  show "\<exists>w3. normalize_lm_head num w1 = Inr w3 \<and>
            shape w3 = shape w1 \<and> dtype w3 = dtype w1 \<and> device w3 = device w1 \<and>
            load_entry num hlp cfg ws rank (sd, h) (''lm_head.weight'', w) =
              (case load_padded_tensor_parallel_vocab hlp param w3 rank of
                 Inl x \<Rightarrow> Inl (Raised x)
               | Inr param' \<Rightarrow> Inr (sd(''lm_head.weight'' \<mapsto> param'), True))"
    by blast
qed

theorem lm_head_normalized_before_sharding_witness:
  "convert_pyslice_to_tensor ex_helpers (ex_tensor [1, 1] [[] :: dtype list]) =
     Inr (ex_tensor [1, 1] [[]]) \<and>
   ex_store ''lm_head.weight'' = Some (ex_tensor [1, 1] [[]]) \<and>
   2 \<le> length (shape (ex_tensor [1, 1] [[] :: dtype list])) \<and>
   dtype (ex_tensor [1, 1] [[] :: dtype list]) = Float16 \<and>
   device (ex_tensor [1, 1] [[] :: dtype list]) = CPU \<and>
   normalize_lm_head ex_numerics (ex_tensor [1, 1] [[]]) =
     Inr (ex_tensor [1, 1] [[Float32, Float32, Float16]]) \<and>
   \<not> (dtype ex_cuda_tensor = Float16 \<and> device ex_cuda_tensor = CPU) \<and>
   2 \<le> length (shape ex_cuda_tensor) \<and>
   normalize_lm_head ex_numerics ex_cuda_tensor = Inr (ex_cuda_tensor\<lparr>data := [[Float16]]\<rparr>) \<and>
   load_entry ex_numerics ex_helpers ex_config 2 0 (ex_store, False)
     (''lm_head.weight'', ex_tensor [1, 1] [[]]) =
   Inr ([''lm_head.weight'' \<mapsto> ex_tensor [1, 1] [[Float32, Float32, Float16]]], True)"
proof -
  let ?t = "ex_tensor [1, 1] [[] :: dtype list]"
  have c: "convert_pyslice_to_tensor ex_helpers ?t = Inr ?t" by (simp add: ex_helpers_def)
  have k: "ex_store ''lm_head.weight'' = Some ?t" by (simp add: ex_store_def)
  have l: "2 \<le> length (shape ?t)" and dt: "dtype ?t = Float16" and dv: "device ?t = CPU"
    by (simp_all add: ex_tensor_def)
  have c': "convert_pyslice_to_tensor ex_helpers ex_cuda_tensor = Inr ex_cuda_tensor"
    by (simp add: ex_helpers_def)
  have n': "\<not> (dtype ex_cuda_tensor = Float16 \<and> device ex_cuda_tensor = CPU)"
    and l': "2 \<le> length (shape ex_cuda_tensor)"
    by (simp_all add: ex_cuda_tensor_def)
  note th = lm_head_normalized_before_sharding [where sd = ex_store and num = ex_numerics
      and hlp = ex_helpers and cfg = ex_config and ws = 2 and rank = 0 and h = False, OF c k l]
  note th' = lm_head_normalized_before_sharding [where sd = ex_store and num = ex_numerics
      and hlp = ex_helpers and cfg = ex_config and ws = 2 and rank = 0 and h = False, OF c' k l']
  from th [THEN conjunct1, rule_format, OF conjI [OF dt dv]]
  have n: "normalize_lm_head ex_numerics ?t = Inr (ex_tensor [1, 1] [[Float32, Float32, Float16]])"
    by (simp add: ex_tensor_def ex_numerics_def)
  from th' [THEN conjunct2, THEN conjunct1, rule_format, OF n']
  have m: "normalize_lm_head ex_numerics ex_cuda_tensor = Inr (ex_cuda_tensor\<lparr>data := [[Float16]]\<rparr>)"
    by (simp add: ex_cuda_tensor_def ex_numerics_def)
  from th [THEN conjunct2, THEN conjunct2] n
  have e: "load_entry ex_numerics ex_helpers ex_config 2 0 (ex_store, False) (''lm_head.weight'', ?t) =
      Inr ([''lm_head.weight'' \<mapsto> ex_tensor [1, 1] [[Float32, Float32, Float16]]], True)"
    by (auto simp: ex_helpers_def ex_store_def ex_tensor_def)
  from c k l dt dv n n' l' m e show ?thesis by blast
qed

text \<open>
  A float16 tensor on a CUDA device is normalised in float16, not in single precision.
\<close>

theorem lm_head_normalized_before_sharding_counterexample:
  "dtype ex_cuda_tensor = Float16 \<and>
   normalize_lm_head ex_numerics ex_cuda_tensor = Inr (ex_cuda_tensor\<lparr>data := [[Float16]]\<rparr>) \<and>
   normalize_elevated ex_numerics ex_cuda_tensor =
     Inr (ex_cuda_tensor\<lparr>data := [[Float32, Float32, Float16]]\<rparr>) \<and>
   normalize_lm_head ex_numerics ex_cuda_tensor \<noteq> normalize_elevated ex_numerics ex_cuda_tensor \<and>
   load_entry ex_numerics ex_helpers ex_config 2 0 (ex_store, False)
     (''lm_head.weight'', ex_cuda_tensor) =
   Inr ([''lm_head.weight'' \<mapsto> ex_tensor [1, 1] [[Float16]]], True)"
  by (simp add: ex_cuda_tensor_def ex_numerics_def ex_helpers_def ex_store_def ex_tensor_def
      normalize_lm_head_def normalize_elevated_def F_normalize_def to_dtype_def)

end
